theory Spec2Isabelle
  imports Main
begin

section \<open>The asset tree (src/types.ts)\<close>

text \<open>
  Strings are lists of 8-bit characters, read as code units below 256.
  A property value is \<^verbatim>\<open>any\<close> in the source; the kinds that \<^verbatim>\<open>typeof\<close> tells apart are
  kept as constructors. The number type is a parameter \<open>'n\<close>: the text of a number is
  produced by the platform (template-literal conversion) and is passed to the encoder as
  the function \<open>toStr\<close>.
\<close>

datatype 'n jsvalue =
    JString string
  | JNumber 'n
  | JBoolean bool
  | JNull
  | JUndefined
  | JObject "(string \<times> 'n jsvalue) list"

fun typeof :: "'n jsvalue \<Rightarrow> string" where
  "typeof (JString _) = ''string''"
| "typeof (JNumber _) = ''number''"
| "typeof (JBoolean _) = ''boolean''"
| "typeof JNull = ''object''"
| "typeof JUndefined = ''undefined''"
| "typeof (JObject _) = ''object''"

text \<open>
  \<^verbatim>\<open>RobloxAsset\<close>: the interface is recursive, so it is a datatype with the fields as
  selectors. \<^verbatim>\<open>source\<close> and \<^verbatim>\<open>properties\<close> are optional fields; \<^verbatim>\<open>properties\<close> is kept
  as the list that \<^verbatim>\<open>Object.entries\<close> enumerates.
\<close>

datatype 'n asset =
  Asset (asset_id: string) (name: string) (className: string) (source: "string option")
        (children: "'n asset list") (properties: "(string \<times> 'n jsvalue) list option")

section \<open>The encoder (src/utils/xmlBuilder.ts, buildRbxmx)\<close>

text \<open>The callback of \<^verbatim>\<open>unsafe.replace\<close>: a switch with a default branch.\<close>

definition escapeCallback :: "char \<Rightarrow> string" where
  "escapeCallback c =
     (if c = CHR ''<'' then ''&lt;''
      else if c = CHR ''>'' then ''&gt;''
      else if c = CHR ''&'' then ''&amp;''
      else if c = CHR 0x22 then ''&quot;''
      else if c = CHR 0x27 then ''&apos;''
      else [c])"

text \<open>The character class \<^verbatim>\<open>[<>&"']\<close> of the regular expression.\<close>

definition escapeClass :: "char \<Rightarrow> bool" where
  "escapeClass c \<longleftrightarrow> c \<in> set [CHR ''<'', CHR ''>'', CHR ''&'', CHR 0x22, CHR 0x27]"

text \<open>A global replace of single characters: every match is replaced by the callback's result.\<close>

fun replaceAll :: "(char \<Rightarrow> bool) \<Rightarrow> (char \<Rightarrow> string) \<Rightarrow> string \<Rightarrow> string" where
  "replaceAll cls f [] = []"
| "replaceAll cls f (c # cs) = (if cls c then f c else [c]) @ replaceAll cls f cs"

text \<open>
  \<^verbatim>\<open>escapeXml\<close>: the argument is \<open>None\<close> when the caller passes \<^verbatim>\<open>undefined\<close>; \<^verbatim>\<open>!unsafe\<close> holds
  for a missing and for an empty string.
\<close>

definition escapeXml :: "string option \<Rightarrow> string" where
  "escapeXml unsafe =
     (case unsafe of
        None \<Rightarrow> []
      | Some s \<Rightarrow> if s = [] then [] else replaceAll escapeClass escapeCallback s)"

definition repeat :: "string \<Rightarrow> nat \<Rightarrow> string" where
  "repeat s n = concat (replicate n s)"

definition digit :: "nat \<Rightarrow> char" where
  "digit d = ''0123456789'' ! d"

text \<open>The decimal text of a non-negative integer.\<close>

fun decimal :: "nat \<Rightarrow> string" where
  "decimal n = (if n < 10 then [digit n] else decimal (n div 10) @ [digit (n mod 10)])"

declare decimal.simps [simp del]

definition startsWith :: "string \<Rightarrow> string \<Rightarrow> bool" where
  "startsWith s pat \<longleftrightarrow> take (length pat) s = pat"

text \<open>\<^verbatim>\<open>String.prototype.includes\<close>: the pattern occurs as a contiguous part.\<close>

fun includesStr :: "string \<Rightarrow> string \<Rightarrow> bool" where
  "includesStr [] pat = (pat = [])"
| "includesStr (c # cs) pat = (startsWith (c # cs) pat \<or> includesStr cs pat)"

text \<open>Truthiness of an optional string: \<^verbatim>\<open>undefined\<close> and the empty string are falsy.\<close>

definition truthy :: "string option \<Rightarrow> bool" where
  "truthy s \<longleftrightarrow> (case s of None \<Rightarrow> False | Some t \<Rightarrow> t \<noteq> [])"

definition scriptLike :: "string \<Rightarrow> bool" where
  \<open>scriptLike cls \<longleftrightarrow> includesStr cls ''Script'' \<or> cls = ''ModuleScript''\<close>

text \<open>The callback of \<^verbatim>\<open>Object.entries(item.properties).forEach\<close>: what one entry appends.\<close>

fun propertyEntry :: "('n \<Rightarrow> string) \<Rightarrow> string \<Rightarrow> string \<times> 'n jsvalue \<Rightarrow> string" where
  \<open>propertyEntry toStr indent (nm, JString v) =
     indent @ ''    <string name="'' @ nm @ ''">'' @ escapeXml (Some v) @ ''</string>\<newline>''\<close>
| \<open>propertyEntry toStr indent (nm, JNumber v) =
     indent @ ''    <float name="'' @ nm @ ''">'' @ toStr v @ ''</float>\<newline>''\<close>
| \<open>propertyEntry toStr indent (nm, JBoolean v) =
     indent @ ''    <bool name="'' @ nm @ ''">'' @ (if v then ''true'' else ''false'') @ ''</bool>\<newline>''\<close>
| \<open>propertyEntry toStr indent (nm, _) = []\<close>

text \<open>
  \<^verbatim>\<open>generateItem\<close>. \<open>rnd\<close> is the ambient random generator as a state transformer: one
  call yields the integer \<^verbatim>\<open>Math.floor(Math.random() * 100000000)\<close> and the next generator
  state. The referent is drawn before the children are rendered. The \<^verbatim>\<open>forEach\<close> over the
  children is \<open>generateChildren\<close>; for an empty list nothing is appended, as the guard
  \<^verbatim>\<open>item.children.length > 0\<close> has it.
\<close>

fun generateItem ::
    "('n \<Rightarrow> string) \<Rightarrow> ('g \<Rightarrow> nat \<times> 'g) \<Rightarrow> 'n asset \<Rightarrow> nat \<Rightarrow> 'g \<Rightarrow> string \<times> 'g"
  and generateChildren ::
    "('n \<Rightarrow> string) \<Rightarrow> ('g \<Rightarrow> nat \<times> 'g) \<Rightarrow> 'n asset list \<Rightarrow> nat \<Rightarrow> 'g \<Rightarrow> string \<times> 'g"
where
  \<open>generateItem toStr rnd (Asset i nm cls src kids props) depth g =
     (let indent = repeat ''  '' (depth + 1);
          referent = ''RBX'' @ decimal (fst (rnd g));
          xml0 = indent @ ''<Item class="'' @ cls @ ''" referent="'' @ referent @ ''">\<newline>'';
          xml1 = xml0 @ indent @ ''  <Properties>\<newline>'';
          xml2 = xml1 @ indent @ ''    <string name="Name">'' @ escapeXml (Some nm) @ ''</string>\<newline>'';
          xml3 = (case src of
                    None \<Rightarrow> xml2
                  | Some code \<Rightarrow>
                      if code \<noteq> [] \<and> (includesStr cls ''Script'' \<or> cls = ''ModuleScript'')
                      then xml2 @ indent @ ''    <ProtectedString name="Source"><![CDATA['' @ code
                             @ '']]></ProtectedString>\<newline>''
                      else xml2);
          xml4 = (case props of
                    None \<Rightarrow> xml3
                  | Some ps \<Rightarrow> foldl (\<lambda>xml e. xml @ propertyEntry toStr indent e) xml3 ps);
          xml5 = xml4 @ indent @ ''  </Properties>\<newline>'';
          r = generateChildren toStr rnd kids (depth + 1) (snd (rnd g))
      in (xml5 @ fst r @ indent @ ''</Item>\<newline>'', snd r))\<close>
| \<open>generateChildren toStr rnd [] depth g = ([], g)\<close>
| \<open>generateChildren toStr rnd (child # rest) depth g =
     (let r1 = generateItem toStr rnd child depth g;
          r2 = generateChildren toStr rnd rest depth (snd r1)
      in (fst r1 @ fst r2, snd r2))\<close>

definition preamble :: string where
  \<open>preamble =
     ''<?xml version="1.0" encoding="UTF-8"?>\<newline>'' @
     ''<roblox xmlns:xmime="http://www.w3.org/2005/05/xmlmime" xmlns:xsi="http://www.w3.org/2001/XMLSchema-instance" xsi:noNamespaceSchemaLocation="http://www.roblox.com/roblox.xsd" version="4">\<newline>'' @
     ''  <External>null</External>\<newline>'' @
     ''  <External>nil</External>\<newline>''\<close>

definition buildRbxmx ::
    "('n \<Rightarrow> string) \<Rightarrow> ('g \<Rightarrow> nat \<times> 'g) \<Rightarrow> 'n asset \<Rightarrow> 'g \<Rightarrow> string \<times> 'g" where
  \<open>buildRbxmx toStr rnd asset g =
     (let r = generateItem toStr rnd asset 0 g
      in (preamble @ fst r @ ''</roblox>'', snd r))\<close>

section \<open>The document object model used by the decoder\<close>

text \<open>
  The part of the platform's DOM that \<^verbatim>\<open>parseRbxmx\<close> touches: elements with a tag name,
  attributes in document order and child nodes; character data (text and CDATA sections)
  as text nodes. Comments and processing instructions carry no text content and are no
  elements, so they are not kept.
\<close>

datatype element = Element (tagName: string) (attributes: "(string \<times> string) list")
                           (childNodes: "node list")
  and node = ElementNode element | TextNode string

definition getAttribute :: "element \<Rightarrow> string \<Rightarrow> string option" where
  "getAttribute e a = map_of (attributes e) a"

text \<open>\<^verbatim>\<open>textContent\<close>: the text of all text nodes below the element, in document order.\<close>

fun textContent :: "element \<Rightarrow> string"
  and textOfNodes :: "node list \<Rightarrow> string"
where
  "textContent (Element t a ns) = textOfNodes ns"
| "textOfNodes [] = []"
| "textOfNodes (TextNode s # ns) = s @ textOfNodes ns"
| "textOfNodes (ElementNode e # ns) = textContent e @ textOfNodes ns"

text \<open>
  The proper descendants of an element in document order, each with the tag name of its
  parent element.
\<close>

fun descendants :: "element \<Rightarrow> (string \<times> element) list"
  and descendantsOfNodes :: "string \<Rightarrow> node list \<Rightarrow> (string \<times> element) list"
where
  "descendants (Element t a ns) = descendantsOfNodes t ns"
| "descendantsOfNodes p [] = []"
| "descendantsOfNodes p (TextNode s # ns) = descendantsOfNodes p ns"
| "descendantsOfNodes p (ElementNode e # ns) = (p, e) # descendants e @ descendantsOfNodes p ns"

text \<open>
  \<^verbatim>\<open>document.querySelector(tag)\<close> with a type selector: the first element of the document,
  the document element included, that has the tag name.
\<close>

definition querySelectorTag :: "element \<Rightarrow> string \<Rightarrow> element option" where
  "querySelectorTag doc tag = find (\<lambda>e. tagName e = tag) (doc # map snd (descendants doc))"

text \<open>
  \<^verbatim>\<open>element.querySelector('P > T[a="v"]')\<close>: the first proper descendant of the element, in
  document order, that has tag name \<open>T\<close>, attribute \<open>a\<close> equal to \<open>v\<close>, and a parent
  element with tag name \<open>P\<close>. The match is not restricted to children of the element's own
  children: the selector is matched against the document and the result only has to lie
  below the element.
\<close>

definition querySelectorChild ::
    "element \<Rightarrow> string \<Rightarrow> string \<Rightarrow> string \<Rightarrow> string \<Rightarrow> element option" where
  "querySelectorChild scope p t a v =
     map_option snd
       (find (\<lambda>(parent, e). parent = p \<and> tagName e = t \<and> getAttribute e a = Some v)
             (descendants scope))"

section \<open>The XML parser behind \<^verbatim>\<open>DOMParser.parseFromString\<close>\<close>

text \<open>
  The platform parser, for the fragment of XML 1.0 without document type declaration:
  the XML declaration and processing instructions (skipped, contents unchecked),
  comments, elements with attributes, character data, CDATA sections and the five
  predefined entity references. Line ends are normalised before parsing, attribute
  values have their white space normalised, attribute names are unique in a tag, tags
  nest properly, there is exactly one document element, and the characters below
  \<open>0x20\<close> other than tab, line feed and carriage return are rejected. A document type
  declaration, a character reference and any other entity reference are reported as
  errors; name spaces are not checked.

  The parser is a machine that reads the text character by character.
\<close>

definition legalChar :: "char \<Rightarrow> bool" where
  "legalChar c \<longleftrightarrow> (32::nat) \<le> of_char c \<or> c = CHR 0x09 \<or> c = CHR 0x0A \<or> c = CHR 0x0D"

definition isSpace :: "char \<Rightarrow> bool" where
  "isSpace c \<longleftrightarrow> c = CHR '' '' \<or> c = CHR 0x09 \<or> c = CHR 0x0A \<or> c = CHR 0x0D"

definition isNameStart :: "char \<Rightarrow> bool" where
  "isNameStart c \<longleftrightarrow>
     (let n = (of_char c :: nat)
      in c = CHR '':'' \<or> c = CHR ''_'' \<or> (65 \<le> n \<and> n \<le> 90) \<or> (97 \<le> n \<and> n \<le> 122)
         \<or> (192 \<le> n \<and> n \<le> 214) \<or> (216 \<le> n \<and> n \<le> 246) \<or> 248 \<le> n)"

definition isNameChar :: "char \<Rightarrow> bool" where
  "isNameChar c \<longleftrightarrow>
     (let n = (of_char c :: nat)
      in isNameStart c \<or> c = CHR ''-'' \<or> c = CHR ''.'' \<or> (48 \<le> n \<and> n \<le> 57) \<or> n = 183)"

fun normalizeEol :: "string \<Rightarrow> string" where
  "normalizeEol [] = []"
| "normalizeEol [c] = (if c = CHR 0x0D then [CHR 0x0A] else [c])"
| "normalizeEol (c # d # s) =
     (if c = CHR 0x0D then
        (if d = CHR 0x0A then CHR 0x0A # normalizeEol s else CHR 0x0A # normalizeEol (d # s))
      else c # normalizeEol (d # s))"

definition entityChar :: "string \<Rightarrow> char option" where
  "entityChar nm =
     (if nm = ''lt'' then Some (CHR ''<'')
      else if nm = ''gt'' then Some (CHR ''>'')
      else if nm = ''amp'' then Some (CHR ''&'')
      else if nm = ''quot'' then Some (CHR 0x22)
      else if nm = ''apos'' then Some (CHR 0x27)
      else None)"

type_synonym attrs = "(string \<times> string) list"

text \<open>An open element: tag name, attributes, and the child nodes read so far.\<close>

type_synonym frame = "string \<times> attrs \<times> node list"

datatype mode =
    Content string
  | Ref string string
  | Markup
  | OpenTag string
  | BeforeAttr string attrs
  | AttrName string attrs string
  | AfterAttrName string attrs string
  | AttrEq string attrs string
  | AttrValue string attrs string char string
  | AttrRef string attrs string char string string
  | AfterAttr string attrs
  | EmptyEnd string attrs
  | CloseTag string
  | CloseSpace string
  | Bang
  | CDataStart nat
  | CData string nat
  | CommentStart
  | Comment nat
  | PIStart
  | PI bool

text \<open>
  The parser state: the mode, the open elements (innermost first) and the finished
  document element, if there is one already.
\<close>

datatype pstate = Parsing mode "frame list" "element option" | Failed

fun addText :: "string \<Rightarrow> frame list \<Rightarrow> frame list" where
  "addText txt [] = []"
| "addText txt ((t, a, ks) # st) = (if txt = [] then (t, a, ks) # st else (t, a, ks @ [TextNode txt]) # st)"

fun addCData :: "string \<Rightarrow> frame list \<Rightarrow> frame list" where
  "addCData txt [] = []"
| "addCData txt ((t, a, ks) # st) = (t, a, ks @ [TextNode txt]) # st"

fun closeElement :: "element \<Rightarrow> frame list \<Rightarrow> element option \<Rightarrow> pstate" where
  "closeElement e [] None = Parsing (Content []) [] (Some e)"
| "closeElement e [] (Some r) = Failed"
| "closeElement e ((t, a, ks) # st) root = Parsing (Content []) ((t, a, ks @ [ElementNode e]) # st) root"

definition openElement :: "string \<Rightarrow> attrs \<Rightarrow> frame list \<Rightarrow> element option \<Rightarrow> pstate" where
  "openElement nm as st root =
     (if \<not> distinct (map fst as) then Failed
      else if st = [] \<and> root \<noteq> None then Failed
      else Parsing (Content []) ((nm, as, []) # st) root)"

definition emptyElement :: "string \<Rightarrow> attrs \<Rightarrow> frame list \<Rightarrow> element option \<Rightarrow> pstate" where
  "emptyElement nm as st root =
     (if \<not> distinct (map fst as) then Failed else closeElement (Element nm as []) st root)"

fun endElement :: "string \<Rightarrow> frame list \<Rightarrow> element option \<Rightarrow> pstate" where
  "endElement nm [] root = Failed"
| "endElement nm ((t, a, ks) # st) root =
     (if t = nm then closeElement (Element t a ks) st root else Failed)"

definition endsWith :: "string \<Rightarrow> string \<Rightarrow> bool" where
  "endsWith s pat \<longleftrightarrow> length pat \<le> length s \<and> drop (length s - length pat) s = pat"

fun step :: "pstate \<Rightarrow> char \<Rightarrow> pstate" where
  "step Failed c = Failed"
| "step (Parsing (Content txt) st root) c =
     (if c = CHR ''<'' then Parsing Markup (addText txt st) root
      else if st = [] then (if isSpace c then Parsing (Content []) [] root else Failed)
      else if c = CHR ''&'' then Parsing (Ref txt []) st root
      else if c = CHR ''>'' \<and> endsWith txt '']]'' then Failed
      else Parsing (Content (txt @ [c])) st root)"
| "step (Parsing (Ref txt nm) st root) c =
     (if c = CHR '';'' then
        (case entityChar nm of None \<Rightarrow> Failed | Some e \<Rightarrow> Parsing (Content (txt @ [e])) st root)
      else if isNameChar c then Parsing (Ref txt (nm @ [c])) st root
      else Failed)"
| "step (Parsing Markup st root) c =
     (if c = CHR ''/'' then Parsing (CloseTag []) st root
      else if c = CHR ''!'' then Parsing Bang st root
      else if c = CHR ''?'' then Parsing PIStart st root
      else if isNameStart c then Parsing (OpenTag [c]) st root
      else Failed)"
| "step (Parsing (OpenTag nm) st root) c =
     (if isNameChar c then Parsing (OpenTag (nm @ [c])) st root
      else if isSpace c then Parsing (BeforeAttr nm []) st root
      else if c = CHR ''>'' then openElement nm [] st root
      else if c = CHR ''/'' then Parsing (EmptyEnd nm []) st root
      else Failed)"
| "step (Parsing (BeforeAttr nm as) st root) c =
     (if isSpace c then Parsing (BeforeAttr nm as) st root
      else if c = CHR ''>'' then openElement nm as st root
      else if c = CHR ''/'' then Parsing (EmptyEnd nm as) st root
      else if isNameStart c then Parsing (AttrName nm as [c]) st root
      else Failed)"
| "step (Parsing (AttrName nm as an) st root) c =
     (if isNameChar c then Parsing (AttrName nm as (an @ [c])) st root
      else if c = CHR ''='' then Parsing (AttrEq nm as an) st root
      else if isSpace c then Parsing (AfterAttrName nm as an) st root
      else Failed)"
| "step (Parsing (AfterAttrName nm as an) st root) c =
     (if isSpace c then Parsing (AfterAttrName nm as an) st root
      else if c = CHR ''='' then Parsing (AttrEq nm as an) st root
      else Failed)"
| "step (Parsing (AttrEq nm as an) st root) c =
     (if isSpace c then Parsing (AttrEq nm as an) st root
      else if c = CHR 0x22 \<or> c = CHR 0x27 then Parsing (AttrValue nm as an c []) st root
      else Failed)"
| "step (Parsing (AttrValue nm as an q v) st root) c =
     (if c = q then Parsing (AfterAttr nm (as @ [(an, v)])) st root
      else if c = CHR ''<'' then Failed
      else if c = CHR ''&'' then Parsing (AttrRef nm as an q v []) st root
      else if isSpace c then Parsing (AttrValue nm as an q (v @ '' '')) st root
      else Parsing (AttrValue nm as an q (v @ [c])) st root)"
| "step (Parsing (AttrRef nm as an q v r) st root) c =
     (if c = CHR '';'' then
        (case entityChar r of
           None \<Rightarrow> Failed
         | Some e \<Rightarrow> Parsing (AttrValue nm as an q (v @ [e])) st root)
      else if isNameChar c then Parsing (AttrRef nm as an q v (r @ [c])) st root
      else Failed)"
| "step (Parsing (AfterAttr nm as) st root) c =
     (if isSpace c then Parsing (BeforeAttr nm as) st root
      else if c = CHR ''>'' then openElement nm as st root
      else if c = CHR ''/'' then Parsing (EmptyEnd nm as) st root
      else Failed)"
| "step (Parsing (EmptyEnd nm as) st root) c =
     (if c = CHR ''>'' then emptyElement nm as st root else Failed)"
| "step (Parsing (CloseTag nm) st root) c =
     (if nm = [] then (if isNameStart c then Parsing (CloseTag [c]) st root else Failed)
      else if isNameChar c then Parsing (CloseTag (nm @ [c])) st root
      else if isSpace c then Parsing (CloseSpace nm) st root
      else if c = CHR ''>'' then endElement nm st root
      else Failed)"
| "step (Parsing (CloseSpace nm) st root) c =
     (if isSpace c then Parsing (CloseSpace nm) st root
      else if c = CHR ''>'' then endElement nm st root
      else Failed)"
| "step (Parsing Bang st root) c =
     (if c = CHR ''-'' then Parsing CommentStart st root
      else if c = CHR ''['' \<and> st \<noteq> [] then Parsing (CDataStart 0) st root
      else Failed)"
| "step (Parsing (CDataStart k) st root) c =
     (if k < 6 \<and> c = ''CDATA['' ! k then
        (if k = 5 then Parsing (CData [] 0) st root else Parsing (CDataStart (Suc k)) st root)
      else Failed)"
| "step (Parsing (CData txt k) st root) c =
     (if c = CHR '']'' then
        (if k < 2 then Parsing (CData txt (Suc k)) st root
         else Parsing (CData (txt @ '']'') k) st root)
      else if c = CHR ''>'' \<and> 2 \<le> k then Parsing (Content []) (addCData txt st) root
      else Parsing (CData (txt @ replicate k (CHR '']'') @ [c]) 0) st root)"
| "step (Parsing CommentStart st root) c =
     (if c = CHR ''-'' then Parsing (Comment 0) st root else Failed)"
| "step (Parsing (Comment k) st root) c =
     (if 2 \<le> k then (if c = CHR ''>'' then Parsing (Content []) st root else Failed)
      else if c = CHR ''-'' then Parsing (Comment (Suc k)) st root
      else Parsing (Comment 0) st root)"
| "step (Parsing PIStart st root) c =
     (if isNameStart c then Parsing (PI False) st root else Failed)"
| "step (Parsing (PI q) st root) c =
     (if c = CHR ''?'' then Parsing (PI True) st root
      else if c = CHR ''>'' \<and> q then Parsing (Content []) st root
      else Parsing (PI False) st root)"

definition feed :: "pstate \<Rightarrow> char \<Rightarrow> pstate" where
  "feed s c = (if legalChar c then step s c else Failed)"

definition run :: "pstate \<Rightarrow> string \<Rightarrow> pstate" where
  "run s cs = foldl feed s cs"

fun finish :: "pstate \<Rightarrow> element option" where
  "finish (Parsing (Content txt) [] (Some e)) = Some e"
| "finish _ = None"

text \<open>The document element of a well-formed document, \<open>None\<close> for any other text.\<close>

definition xmlParse :: "string \<Rightarrow> element option" where
  "xmlParse s = finish (run (Parsing (Content []) [] None) (normalizeEol s))"

definition wellFormed :: "string \<Rightarrow> bool" where
  "wellFormed s \<longleftrightarrow> xmlParse s \<noteq> None"

text \<open>
  \<^verbatim>\<open>parseFromString(text, "text/xml")\<close> does not throw: for a text that is not well-formed
  the document it returns consists of a \<^verbatim>\<open>parsererror\<close> element describing the error,
  which holds no parsed content (the behaviour that the DOM standard describes). An
  implementation that leaves content read before the error in the returned document is
  not modelled.
\<close>

definition parsererror :: element where
  "parsererror = Element ''parsererror'' [] []"

definition parseFromString :: "string \<Rightarrow> element" where
  "parseFromString s = (case xmlParse s of Some e \<Rightarrow> e | None \<Rightarrow> parsererror)"

section \<open>The decoder (src/utils/xmlBuilder.ts, parseRbxmx)\<close>

text \<open>
  The single failure of the decoder: the \<^verbatim>\<open>Error\<close> thrown when the document holds no
  \<^verbatim>\<open>Item\<close> element (its message names an invalid XML file or one without Roblox items).
\<close>

datatype error = StructuralError

definition orElse :: "string option \<Rightarrow> string \<Rightarrow> string" where
  "orElse v d = (case v of None \<Rightarrow> d | Some s \<Rightarrow> if s = [] then d else s)"

definition orUndefined :: "string option \<Rightarrow> string option" where
  "orUndefined v = (case v of None \<Rightarrow> None | Some s \<Rightarrow> if s = [] then None else Some s)"

text \<open>
  \<^verbatim>\<open>extractItem\<close>. \<open>uuid\<close> is \<^verbatim>\<open>crypto.randomUUID\<close> as a state transformer; the identifier of
  a node is drawn when its object literal is built, after its children were extracted.
  The loop over \<^verbatim>\<open>element.children\<close> is \<open>extractChildren\<close>: text nodes are no children,
  and only elements with tag name \<^verbatim>\<open>Item\<close> are extracted.
\<close>

fun extractItem :: "('u \<Rightarrow> string \<times> 'u) \<Rightarrow> element \<Rightarrow> 'u \<Rightarrow> 'n asset \<times> 'u"
  and extractChildren :: "('u \<Rightarrow> string \<times> 'u) \<Rightarrow> node list \<Rightarrow> 'u \<Rightarrow> 'n asset list \<times> 'u"
where
  \<open>extractItem uuid (Element t a ns) u =
     (let element = Element t a ns;
          className = orElse (getAttribute element ''class'') ''Folder'';
          nameNode = querySelectorChild element ''Properties'' ''string'' ''name'' ''Name'';
          sourceNode = querySelectorChild element ''Properties'' ''ProtectedString'' ''name'' ''Source'';
          r = extractChildren uuid ns u
      in (Asset (fst (uuid (snd r)))
                (orElse (map_option textContent nameNode) ''Unnamed'')
                className
                (orUndefined (map_option textContent sourceNode))
                (fst r)
                None,
          snd (uuid (snd r))))\<close>
| \<open>extractChildren uuid [] u = ([], u)\<close>
| \<open>extractChildren uuid (TextNode s # ns) u = extractChildren uuid ns u\<close>
| \<open>extractChildren uuid (ElementNode e # ns) u =
     (if tagName e = ''Item'' then
        (let r1 = extractItem uuid e u;
             r2 = extractChildren uuid ns (snd r1)
         in (fst r1 # fst r2, snd r2))
      else extractChildren uuid ns u)\<close>

definition parseRbxmx :: "('u \<Rightarrow> string \<times> 'u) \<Rightarrow> string \<Rightarrow> 'u \<Rightarrow> error + ('n asset \<times> 'u)" where
  \<open>parseRbxmx uuid xmlText u =
     (let xmlDoc = parseFromString xmlText;
          rootItem = querySelectorTag xmlDoc ''Item''
      in case rootItem of
           None \<Rightarrow> Inl StructuralError
         | Some e \<Rightarrow> Inr (extractItem uuid e u))\<close>

section \<open>Notions used to state the properties\<close>

text \<open>The standard named entity of a markup-significant character, if it has one.\<close>

definition entityName :: "char \<Rightarrow> string option" where
  "entityName c =
     (if c = CHR ''<'' then Some ''lt''
      else if c = CHR ''>'' then Some ''gt''
      else if c = CHR ''&'' then Some ''amp''
      else if c = CHR 0x22 then Some ''quot''
      else if c = CHR 0x27 then Some ''apos''
      else None)"

text \<open>The escaping rule in the words of the specification, character by character.\<close>

definition entityText :: "char \<Rightarrow> string" where
  "entityText c = (case entityName c of None \<Rightarrow> [c] | Some nm \<Rightarrow> ''&'' @ nm @ '';'')"

text \<open>The three supported kinds of property values.\<close>

definition supportedKind :: "'n jsvalue \<Rightarrow> bool" where
  "supportedKind v \<longleftrightarrow> typeof v = ''string'' \<or> typeof v = ''number'' \<or> typeof v = ''boolean''"

text \<open>The tree without the property entries of an unsupported kind, at every depth.\<close>

fun dropUnsupported :: "'n asset \<Rightarrow> 'n asset" where
  "dropUnsupported (Asset i nm cls src kids props) =
     Asset i nm cls src (map dropUnsupported kids)
       (map_option (filter (\<lambda>(k, v). supportedKind v)) props)"

text \<open>No node of the tree has a properties map.\<close>

fun noProperties :: "'n asset \<Rightarrow> bool" where
  "noProperties (Asset i nm cls src kids props) \<longleftrightarrow> props = None \<and> list_all noProperties kids"

text \<open>No node of the tree has the empty string as its source.\<close>

fun noEmptySource :: "'n asset \<Rightarrow> bool" where
  "noEmptySource (Asset i nm cls src kids props) \<longleftrightarrow> src \<noteq> Some [] \<and> list_all noEmptySource kids"

text \<open>Two generators for concrete runs: a counter for identifiers, and draws that repeat after 999 calls.\<close>

definition counterUuid :: "nat \<Rightarrow> string \<times> nat" where
  "counterUuid k = (''id'' @ decimal k, Suc k)"

definition cyclicDraws :: "nat \<Rightarrow> nat \<times> nat" where
  "cyclicDraws k = (k mod 999, Suc k)"

text \<open>The source line and the property lines that \<open>generateItem\<close> appends, as text.\<close>

definition sourceXml :: "string \<Rightarrow> string \<Rightarrow> string option \<Rightarrow> string" where
  \<open>sourceXml indent cls src =
     (case src of
        None \<Rightarrow> []
      | Some code \<Rightarrow>
          if code \<noteq> [] \<and> (includesStr cls ''Script'' \<or> cls = ''ModuleScript'')
          then indent @ ''    <ProtectedString name="Source"><![CDATA['' @ code
                 @ '']]></ProtectedString>\<newline>''
          else [])\<close>

definition propertiesXml ::
    "('n \<Rightarrow> string) \<Rightarrow> string \<Rightarrow> (string \<times> 'n jsvalue) list option \<Rightarrow> string" where
  "propertiesXml toStr indent props =
     (case props of None \<Rightarrow> [] | Some ps \<Rightarrow> concat (map (propertyEntry toStr indent) ps))"

subsection \<open>The document that the encoder's text denotes\<close>

text \<open>The normalisation of an attribute value: every white space character becomes a space.\<close>

definition attrNorm :: "string \<Rightarrow> string" where
  "attrNorm s = map (\<lambda>c. if isSpace c then CHR '' '' else c) s"

text \<open>Characters that are character data as they stand.\<close>

definition plainChar :: "char \<Rightarrow> bool" where
  "plainChar c \<longleftrightarrow> legalChar c \<and> c \<noteq> CHR ''<'' \<and> c \<noteq> CHR ''&'' \<and> c \<noteq> CHR ''>''"

text \<open>Characters that stand for themselves in a double-quoted attribute value (up to white space normalisation).\<close>

definition attrChar :: "char \<Rightarrow> bool" where
  "attrChar c \<longleftrightarrow> legalChar c \<and> c \<noteq> CHR ''<'' \<and> c \<noteq> CHR ''&'' \<and> c \<noteq> CHR 0x22"

text \<open>The text node for a piece of character data; the parser makes none for the empty text.\<close>

definition textNodes :: "string \<Rightarrow> node list" where
  "textNodes s = (if s = [] then [] else [TextNode s])"

text \<open>The nodes that the line of one property entry parses to: the indentation and the typed element.\<close>

fun propertyNodes :: "('n \<Rightarrow> string) \<Rightarrow> string \<Rightarrow> string \<times> 'n jsvalue \<Rightarrow> node list" where
  "propertyNodes toStr indent (k, JString v) =
     [TextNode (''\<newline>'' @ indent @ ''    ''),
      ElementNode (Element ''string'' [(''name'', attrNorm k)] (textNodes v))]"
| "propertyNodes toStr indent (k, JNumber v) =
     [TextNode (''\<newline>'' @ indent @ ''    ''),
      ElementNode (Element ''float'' [(''name'', attrNorm k)] (textNodes (toStr v)))]"
| "propertyNodes toStr indent (k, JBoolean v) =
     [TextNode (''\<newline>'' @ indent @ ''    ''),
      ElementNode (Element ''bool'' [(''name'', attrNorm k)] [TextNode (if v then ''true'' else ''false'')])]"
| "propertyNodes toStr indent (k, _) = []"

text \<open>The nodes of all property lines.\<close>

definition propertiesNodes ::
    "('n \<Rightarrow> string) \<Rightarrow> string \<Rightarrow> (string \<times> 'n jsvalue) list option \<Rightarrow> node list" where
  "propertiesNodes toStr indent props =
     (case props of None \<Rightarrow> [] | Some ps \<Rightarrow> concat (map (propertyNodes toStr indent) ps))"

text \<open>The nodes of the source line, if the encoder emits one.\<close>

definition sourceNodes :: "string \<Rightarrow> string \<Rightarrow> string option \<Rightarrow> node list" where
  "sourceNodes indent cls src =
     (case src of
        None \<Rightarrow> []
      | Some code \<Rightarrow>
          if code \<noteq> [] \<and> (includesStr cls ''Script'' \<or> cls = ''ModuleScript'')
          then [TextNode (''\<newline>'' @ indent @ ''    ''),
                ElementNode (Element ''ProtectedString'' [(''name'', ''Source'')] [TextNode code])]
          else [])"

text \<open>The element that the text of \<open>generateItem\<close> parses to, and the nodes of the children's texts.\<close>

fun itemElement :: "('n \<Rightarrow> string) \<Rightarrow> ('g \<Rightarrow> nat \<times> 'g) \<Rightarrow> 'n asset \<Rightarrow> nat \<Rightarrow> 'g \<Rightarrow> element"
  and childItemNodes ::
    "('n \<Rightarrow> string) \<Rightarrow> ('g \<Rightarrow> nat \<times> 'g) \<Rightarrow> 'n asset list \<Rightarrow> nat \<Rightarrow> 'g \<Rightarrow> node list"
where
  "itemElement toStr rnd (Asset i nm cls src kids props) depth g =
     (let indent = repeat ''  '' (depth + 1)
      in Element ''Item'' [(''class'', attrNorm cls), (''referent'', ''RBX'' @ decimal (fst (rnd g)))]
           ([TextNode (''\<newline>'' @ indent @ ''  ''),
             ElementNode (Element ''Properties'' []
               ([TextNode (''\<newline>'' @ indent @ ''    ''),
                 ElementNode (Element ''string'' [(''name'', ''Name'')] (textNodes nm))]
                @ sourceNodes indent cls src
                @ propertiesNodes toStr indent props
                @ [TextNode (''\<newline>'' @ indent @ ''  '')]))]
            @ childItemNodes toStr rnd kids (depth + 1) (snd (rnd g))
            @ [TextNode (''\<newline>'' @ indent)]))"
| "childItemNodes toStr rnd [] depth g = []"
| "childItemNodes toStr rnd (child # rest) depth g =
     [TextNode (''\<newline>'' @ repeat ''  '' (depth + 1)), ElementNode (itemElement toStr rnd child depth g)]
     @ childItemNodes toStr rnd rest depth (snd (generateItem toStr rnd child depth g))"

text \<open>Characters of a text that the parser hands back unchanged: legal, and no carriage return (line ends are normalised).\<close>

definition textChar :: "char \<Rightarrow> bool" where
  "textChar c \<longleftrightarrow> legalChar c \<and> c \<noteq> CHR 0x0D"

text \<open>Characters of a property name that do not end or break the attribute it is written into.\<close>

definition keyChar :: "char \<Rightarrow> bool" where
  "keyChar c \<longleftrightarrow> attrChar c \<and> c \<noteq> CHR 0x0D"

text \<open>Characters of a class name that the class attribute hands back unchanged.\<close>

definition classChar :: "char \<Rightarrow> bool" where
  "classChar c \<longleftrightarrow> attrChar c \<and> c \<noteq> CHR 0x09 \<and> c \<noteq> CHR 0x0A \<and> c \<noteq> CHR 0x0D"

text \<open>The characters that the text of a number consists of (digits, sign, point, exponent, \<^verbatim>\<open>Infinity\<close>, \<^verbatim>\<open>NaN\<close>).\<close>

definition numberChar :: "char \<Rightarrow> bool" where
  "numberChar c \<longleftrightarrow> c \<in> set ''0123456789+-.eInfinityNaN''"

text \<open>A property entry whose line is well-formed; an entry of an unsupported kind writes nothing.\<close>

fun safeProperty :: "('n \<Rightarrow> string) \<Rightarrow> string \<times> 'n jsvalue \<Rightarrow> bool" where
  "safeProperty toStr (k, JString v) \<longleftrightarrow> list_all keyChar k \<and> list_all textChar v"
| "safeProperty toStr (k, JNumber v) \<longleftrightarrow> list_all keyChar k \<and> list_all numberChar (toStr v)"
| "safeProperty toStr (k, JBoolean v) \<longleftrightarrow> list_all keyChar k"
| "safeProperty toStr (k, _) \<longleftrightarrow> True"

text \<open>The encoder writes a source line for the node: its source is non-empty and its class is script-like.\<close>

definition emitsSource :: "string \<Rightarrow> string option \<Rightarrow> bool" where
  "emitsSource cls src \<longleftrightarrow> truthy src \<and> scriptLike cls"

text \<open>Trees whose texts the encoder writes into a well-formed document: legal characters without carriage return in names, values and emitted sources, no terminator \<^verbatim>\<open>]]>\<close> in an emitted source, and no markup character in class names and property names.\<close>

fun safeTree :: "('n \<Rightarrow> string) \<Rightarrow> 'n asset \<Rightarrow> bool" where
  "safeTree toStr (Asset i nm cls src kids props) \<longleftrightarrow>
     list_all textChar nm \<and> list_all classChar cls
     \<and> (case src of
          None \<Rightarrow> True
        | Some code \<Rightarrow> \<not> emitsSource cls src \<or> (list_all textChar code \<and> \<not> includesStr code '']]>''))
     \<and> (case props of None \<Rightarrow> True | Some ps \<Rightarrow> list_all (safeProperty toStr) ps)
     \<and> list_all (safeTree toStr) kids"

text \<open>The lines of an item, named.\<close>

definition itemOpenLine :: "string \<Rightarrow> string \<Rightarrow> string \<Rightarrow> string" where
  \<open>itemOpenLine ind cls ref = ind @ ''<Item class="'' @ cls @ ''" referent="'' @ ref @ ''">\<newline>''\<close>

definition itemCloseLine :: "string \<Rightarrow> string" where
  \<open>itemCloseLine ind = ind @ ''</Item>\<newline>''\<close>

definition propertiesOpenLine :: "string \<Rightarrow> string" where
  \<open>propertiesOpenLine ind = ind @ ''  <Properties>\<newline>''\<close>

definition propertiesCloseLine :: "string \<Rightarrow> string" where
  \<open>propertiesCloseLine ind = ind @ ''  </Properties>\<newline>''\<close>

definition nameLine :: "string \<Rightarrow> string \<Rightarrow> string" where
  \<open>nameLine ind nm = ind @ ''    <string name="Name">'' @ escapeXml (Some nm) @ ''</string>\<newline>''\<close>

text \<open>The document element that the text of \<open>buildRbxmx\<close> parses to.\<close>

definition documentElement ::
    "('n \<Rightarrow> string) \<Rightarrow> ('g \<Rightarrow> nat \<times> 'g) \<Rightarrow> 'n asset \<Rightarrow> 'g \<Rightarrow> element" where
  "documentElement toStr rnd t g =
     Element ''roblox''
       [(''xmlns:xmime'', ''http://www.w3.org/2005/05/xmlmime''),
        (''xmlns:xsi'', ''http://www.w3.org/2001/XMLSchema-instance''),
        (''xsi:noNamespaceSchemaLocation'', ''http://www.roblox.com/roblox.xsd''),
        (''version'', ''4'')]
       [TextNode ''\<newline>  '',
        ElementNode (Element ''External'' [] [TextNode ''null'']),
        TextNode ''\<newline>  '',
        ElementNode (Element ''External'' [] [TextNode ''nil'']),
        TextNode (''\<newline>'' @ repeat ''  '' 1),
        ElementNode (itemElement toStr rnd t 0 g),
        TextNode ''\<newline>'']"

text \<open>The text has no carriage return.\<close>

definition noCR :: "string \<Rightarrow> bool" where
  "noCR s \<longleftrightarrow> CHR 0x0D \<notin> set s"

text \<open>The encoder writes a source line for the node or for one of its descendants.\<close>

fun anySource :: "'n asset \<Rightarrow> bool" where
  "anySource (Asset i nm cls src kids props) \<longleftrightarrow> emitsSource cls src \<or> list_ex anySource kids"

text \<open>What survives one encode/decode cycle, at every depth: the name (the default name for the empty one), the class name (the default class for the empty one), the source of a node with a source line, no source where the subtree has no source line, and the children in number and order.\<close>

fun agrees :: "'n asset \<Rightarrow> 'm asset \<Rightarrow> bool"
  and agreesList :: "'n asset list \<Rightarrow> 'm asset list \<Rightarrow> bool"
where
  "agrees (Asset i nm cls src kids props) d \<longleftrightarrow>
     name d = (if nm = [] then ''Unnamed'' else nm)
     \<and> className d = (if cls = [] then ''Folder'' else cls)
     \<and> (emitsSource cls src \<longrightarrow> source d = src)
     \<and> (\<not> anySource (Asset i nm cls src kids props) \<longrightarrow> source d = None)
     \<and> agreesList kids (children d)"
| "agreesList [] ds \<longleftrightarrow> ds = []"
| "agreesList (k # ks) ds \<longleftrightarrow> (case ds of [] \<Rightarrow> False | d # ds' \<Rightarrow> agrees k d \<and> agreesList ks ds')"

text \<open>The elements that the selector for the source matches.\<close>

definition isSource :: "string \<times> element \<Rightarrow> bool" where
  "isSource pe \<longleftrightarrow> fst pe = ''Properties'' \<and> tagName (snd pe) = ''ProtectedString''
                   \<and> getAttribute (snd pe) ''name'' = Some ''Source''"

subsection \<open>Concrete documents and trees\<close>

text \<open>All elements of a document, in document order.\<close>

definition elementsOf :: "element \<Rightarrow> element list" where
  "elementsOf doc = doc # map snd (descendants doc)"

text \<open>Trees for concrete runs: a script with a child that has properties of several kinds; a folder that holds a script; a node whose class name holds a quotation mark; a model of 1000 nodes.\<close>

definition sampleTree :: "nat asset" where
  \<open>sampleTree =
     Asset [] ''Main<&>'' ''Script'' (Some ''print("a" < 1)'')
       [Asset [] ''Kid'' ''Part'' None []
          (Some [(''Tag'', JString ''v''), (''Size'', JNumber 3), (''Gone'', JNull)])]
       None\<close>

definition folderWithScript :: "nat asset" where
  \<open>folderWithScript =
     Asset [] ''Root'' ''Folder'' None [Asset [] ''Main'' ''Script'' (Some ''print(1)'') [] None] None\<close>

definition badClass :: "nat asset" where
  \<open>badClass = Asset [] ''Part'' [CHR ''A'', CHR 0x22, CHR ''B''] None [] None\<close>

text \<open>The number of nodes of a tree.\<close>

fun nodeCount :: "'n asset \<Rightarrow> nat" where
  "nodeCount (Asset i nm cls src kids props) = Suc (sum_list (map nodeCount kids))"

text \<open>The referent attributes of the \<^verbatim>\<open>Item\<close> elements of a document, in document order.\<close>

definition referents :: "element \<Rightarrow> string option list" where
  "referents doc = map (\<lambda>e. getAttribute e ''referent'') (filter (\<lambda>e. tagName e = ''Item'') (elementsOf doc))"

definition partLeaf :: "nat asset" where
  "partLeaf = Asset [] ''Part'' ''Part'' None [] None"

definition thousandNodes :: "nat asset" where
  "thousandNodes = Asset [] ''Model'' ''Folder'' None (replicate 999 partLeaf) None"

section \<open>Properties\<close>

subsection \<open>Evaluation of the parser and the decoder on concrete texts\<close>

lemma run_Nil: "run s [] = s"
  by (simp add: run_def)

lemma run_Cons: "run s (c # cs) = run (feed s c) cs"
  by (simp add: run_def)

lemma run_append: "run s (xs @ ys) = run (run s xs) ys"
  by (simp add: run_def)

lemma run_Failed: "run Failed cs = Failed"
  by (induction cs) (simp_all add: run_Nil run_Cons feed_def)

lemmas charClasses = legalChar_def isSpace_def isNameStart_def isNameChar_def

lemmas parserEval = xmlParse_def run_Nil run_Cons run_Failed feed_def charClasses
  openElement_def emptyElement_def entityChar_def endsWith_def

lemmas decoderEval = parseRbxmx_def parseFromString_def parsererror_def querySelectorTag_def
  querySelectorChild_def getAttribute_def orElse_def orUndefined_def Let_def

lemma decimal_digit: "n < 10 \<Longrightarrow> decimal n = [digit n]"
  by (simp add: decimal.simps)

subsection \<open>Escaping\<close>

lemma replaceAll_entityText: "replaceAll escapeClass escapeCallback s = concat (map entityText s)"
  by (induction s) (auto simp: escapeClass_def escapeCallback_def entityText_def entityName_def)

lemma escapeXml_Some: "escapeXml (Some s) = concat (map entityText s)"
  by (simp add: escapeXml_def replaceAll_entityText)

lemma foldl_append_acc: "foldl (\<lambda>xml e. xml @ f e) acc ps = acc @ concat (map f ps)"
  by (induction ps arbitrary: acc) auto

lemma generateItem_text:
  \<open>fst (generateItem toStr rnd (Asset i nm cls src kids props) depth g) =
     repeat ''  '' (depth + 1) @ ''<Item class="'' @ cls @ ''" referent="'' @ (''RBX'' @ decimal (fst (rnd g))) @ ''">\<newline>''
     @ repeat ''  '' (depth + 1) @ ''  <Properties>\<newline>''
     @ repeat ''  '' (depth + 1) @ ''    <string name="Name">'' @ escapeXml (Some nm) @ ''</string>\<newline>''
     @ sourceXml (repeat ''  '' (depth + 1)) cls src
     @ propertiesXml toStr (repeat ''  '' (depth + 1)) props
     @ repeat ''  '' (depth + 1) @ ''  </Properties>\<newline>''
     @ fst (generateChildren toStr rnd kids (depth + 1) (snd (rnd g)))
     @ repeat ''  '' (depth + 1) @ ''</Item>\<newline>''\<close>
  apply (cases src; cases props)
     apply (simp_all only: generateItem.simps Let_def fst_conv sourceXml_def propertiesXml_def
        foldl_append_acc append_assoc option.case if_distrib[of "\<lambda>x. x @ _"] append_Nil simp_thms
        split: if_split)
   apply blast+
  done

lemma generateItem_state:
  "snd (generateItem toStr rnd (Asset i nm cls src kids props) depth g) =
     snd (generateChildren toStr rnd kids (depth + 1) (snd (rnd g)))"
  by (simp add: Let_def)

lemma generateChildren_Cons:
  "generateChildren toStr rnd (c # cs) depth g =
     (fst (generateItem toStr rnd c depth g)
        @ fst (generateChildren toStr rnd cs depth (snd (generateItem toStr rnd c depth g))),
      snd (generateChildren toStr rnd cs depth (snd (generateItem toStr rnd c depth g))))"
  by (simp add: Let_def)

text \<open>
  C4. Escaping rule: in every text-typed value that the encoder emits (the name and the
  string properties), each of the characters \<open>< > & " '\<close> is replaced by its standard
  named entity and every other character is kept; a missing or empty string escapes to
  the empty string.
\<close>

theorem escaping_rule:
  \<open>escapeXml None = [] \<and> escapeXml (Some []) = []
   \<and> escapeXml (Some s) = concat (map entityText s)
   \<and> (\<exists>pre post. fst (generateItem toStr rnd t depth g)
          = pre @ ''<string name="Name">'' @ concat (map entityText (name t)) @ ''</string>'' @ post)
   \<and> propertyEntry toStr indent (k, JString v)
        = indent @ ''    <string name="'' @ k @ ''">'' @ concat (map entityText v) @ ''</string>\<newline>''\<close>
proof -
  have "\<exists>pre post. fst (generateItem toStr rnd t depth g)
          = pre @ ''<string name=\"Name\">'' @ concat (map entityText (name t)) @ ''</string>'' @ post"
  proof (cases t)
    case (Asset i nm cls src kids props)
    show ?thesis
      unfolding Asset generateItem_text escapeXml_Some asset.sel
      by (rule exI[of _ "repeat ''  '' (depth + 1) @ ''<Item class=\"'' @ cls @ ''\" referent=\"'' @ (''RBX'' @ decimal (fst (rnd g))) @ ''\">\<newline>''
            @ repeat ''  '' (depth + 1) @ ''  <Properties>\<newline>'' @ repeat ''  '' (depth + 1) @ ''    ''"],
          rule exI[of _ "''\<newline>'' @ sourceXml (repeat ''  '' (depth + 1)) cls src
            @ propertiesXml toStr (repeat ''  '' (depth + 1)) props
            @ repeat ''  '' (depth + 1) @ ''  </Properties>\<newline>''
            @ fst (generateChildren toStr rnd kids (depth + 1) (snd (rnd g)))
            @ repeat ''  '' (depth + 1) @ ''</Item>\<newline>''"]) simp
  qed
  then show ?thesis
    by (simp add: escapeXml_Some) (simp add: escapeXml_def)
qed

theorem escaping_rule_witness:
  \<open>escapeXml None = [] \<and> escapeXml (Some []) = []
   \<and> escapeXml (Some ''a<b>&"c'd'') = ''a&lt;b&gt;&amp;&quot;c&apos;d''
   \<and> (\<exists>pre post. fst (generateItem (\<lambda>n::nat. decimal n) cyclicDraws (Asset [] ''<'' ''Part'' None [] None) 0 0)
          = pre @ ''<string name="Name">&lt;</string>'' @ post)
   \<and> propertyEntry (\<lambda>n::nat. decimal n) ''  '' (''Tag'', JString ''x&y'')
        = ''      <string name="Tag">x&amp;y</string>\<newline>''\<close>
  using escaping_rule [of "''a<b>&\"c'd''" "\<lambda>n::nat. decimal n" cyclicDraws
      "Asset [] ''<'' ''Part'' None [] None" 0 0 "''  ''" "''Tag''" "''x&y''"]
  by (simp add: entityText_def entityName_def)


subsection \<open>Unsupported property kinds\<close>

lemma propertyEntry_unsupported: "\<not> supportedKind v \<Longrightarrow> propertyEntry toStr indent (k, v) = []"
  by (cases v) (simp_all add: supportedKind_def)

lemma concat_filter_supported:
  "concat (map (propertyEntry toStr indent) (filter (\<lambda>(k, v). supportedKind v) ps))
     = concat (map (propertyEntry toStr indent) ps)"
  by (induction ps) (auto simp: propertyEntry_unsupported)

lemma propertiesXml_filter:
  "propertiesXml toStr indent (map_option (filter (\<lambda>(k, v). supportedKind v)) props)
     = propertiesXml toStr indent props"
  by (cases props) (simp_all add: propertiesXml_def concat_filter_supported)

lemma generateItem_eq:
  "generateItem toStr rnd t depth g
     = (fst (generateItem toStr rnd t depth g), snd (generateItem toStr rnd t depth g))"
  by simp

lemma generate_dropUnsupported:
  "generateItem toStr rnd (dropUnsupported t) depth g = generateItem toStr rnd t depth g"
  "generateChildren toStr rnd (map dropUnsupported ts) depth g = generateChildren toStr rnd ts depth g"
proof (induction toStr rnd t depth g and toStr rnd ts depth g rule: generateItem_generateChildren.induct)
  case (1 toStr rnd i nm cls src kids props depth g)
  have "fst (generateItem toStr rnd (dropUnsupported (Asset i nm cls src kids props)) depth g)
          = fst (generateItem toStr rnd (Asset i nm cls src kids props) depth g)"
    unfolding dropUnsupported.simps generateItem_text propertiesXml_filter using 1 by simp
  moreover have "snd (generateItem toStr rnd (dropUnsupported (Asset i nm cls src kids props)) depth g)
          = snd (generateItem toStr rnd (Asset i nm cls src kids props) depth g)"
    unfolding dropUnsupported.simps generateItem_state using 1 by simp
  ultimately show ?case by (rule prod_eqI)
next
  case (2 toStr rnd depth g)
  then show ?case by simp
next
  case (3 toStr rnd child rest depth g)
  then show ?case by (simp add: Let_def)
qed

text \<open>
  C7. Encoder totality: the encoder is a total function into texts (the source has no
  failure branch, the model no error value), and a property value that is neither text
  nor number nor boolean is omitted: the tree encodes to the same document as the tree
  without such entries, and such an entry appends nothing.
\<close>

theorem encoder_omits_unsupported:
  "buildRbxmx toStr rnd (dropUnsupported t) g = buildRbxmx toStr rnd t g
   \<and> (\<not> supportedKind v \<longrightarrow> propertyEntry toStr indent (k, v) = [])"
  by (simp add: buildRbxmx_def generate_dropUnsupported propertyEntry_unsupported)

theorem encoder_omits_unsupported_witness:
  "buildRbxmx (\<lambda>n::nat. decimal n) cyclicDraws
      (Asset [] ''P'' ''Part'' None [] (Some [(''Tag'', JString ''x'')])) 0
     = buildRbxmx (\<lambda>n::nat. decimal n) cyclicDraws
         (Asset [] ''P'' ''Part'' None []
            (Some [(''Gone'', JNull), (''Tag'', JString ''x''), (''Nested'', JObject [(''a'', JNumber 1)])])) 0
   \<and> \<not> supportedKind (JNull :: nat jsvalue)
   \<and> propertyEntry (\<lambda>n::nat. decimal n) ''  '' (''Gone'', JNull) = []"
  using encoder_omits_unsupported [of "\<lambda>n::nat. decimal n" cyclicDraws
      "Asset [] ''P'' ''Part'' None []
         (Some [(''Gone'', JNull), (''Tag'', JString ''x''), (''Nested'', JObject [(''a'', JNumber 1)])])"
      0 "JNull" "''  ''" "''Gone''"]
  by (simp add: supportedKind_def)

subsection \<open>What the decoder never returns\<close>

lemma orUndefined_nonempty: "orUndefined v \<noteq> Some []"
  by (simp add: orUndefined_def split: option.splits)

lemma extract_noProperties:
  "noProperties (fst (extractItem uuid e u :: 'n asset \<times> 'u))"
  "list_all noProperties (fst (extractChildren uuid ns u :: 'n asset list \<times> 'u))"
  by (induction e and ns arbitrary: u and u rule: textContent_textOfNodes.induct)
     (simp_all add: Let_def)

lemma extract_noEmptySource:
  "noEmptySource (fst (extractItem uuid e u :: 'n asset \<times> 'u))"
  "list_all noEmptySource (fst (extractChildren uuid ns u :: 'n asset list \<times> 'u))"
  by (induction e and ns arbitrary: u and u rule: textContent_textOfNodes.induct)
     (simp_all add: Let_def orUndefined_nonempty)

lemma parseRbxmx_Inr:
  "parseRbxmx uuid xmlText u = Inr (tree, u') \<Longrightarrow>
     \<exists>e. querySelectorTag (parseFromString xmlText) ''Item'' = Some e
         \<and> tree = fst (extractItem uuid e u)"
  unfolding parseRbxmx_def Let_def
  by (cases "querySelectorTag (parseFromString xmlText) ''Item''") (simp_all add: prod_eq_iff)

text \<open>
  C8. Decode asymmetry: whatever the document, no node of the tree that the decoder
  returns has a properties map.
\<close>

theorem decode_drops_properties:
  "parseRbxmx uuid xmlText u = Inr (tree, u') \<Longrightarrow> noProperties tree"
proof -
  assume h: "parseRbxmx uuid xmlText u = Inr (tree, u')"
  obtain e where "tree = fst (extractItem uuid e u)"
    using parseRbxmx_Inr [OF h] by auto
  then show ?thesis
    by (simp add: extract_noProperties(1))
qed

theorem decode_drops_properties_witness:
  \<open>parseRbxmx counterUuid
      ''<Item class="Part"><Properties><string name="Name">P</string><float name="Size">3</float></Properties></Item>'' 0
     = Inr (Asset ''id0'' ''P'' ''Part'' None [] None :: nat asset, 1)
   \<and> noProperties (Asset ''id0'' ''P'' ''Part'' None [] None :: nat asset)\<close>
proof -
  have h: \<open>parseRbxmx counterUuid
      ''<Item class="Part"><Properties><string name="Name">P</string><float name="Size">3</float></Properties></Item>'' 0
     = Inr (Asset ''id0'' ''P'' ''Part'' None [] None :: nat asset, 1)\<close>
    by (simp add: parserEval decoderEval counterUuid_def decimal_digit digit_def)
  show ?thesis using h decode_drops_properties [OF h] by simp
qed

text \<open>
  C10. Whatever the document, no node of the tree that the decoder returns has the empty
  string as its source; when the Source element that the decoder finds has empty text
  content, the source of the node is unset.
\<close>

theorem decode_source_never_empty:
  "(parseRbxmx uuid xmlText u = Inr (tree, u') \<longrightarrow> noEmptySource tree)
   \<and> (querySelectorChild e ''Properties'' ''ProtectedString'' ''name'' ''Source'' = Some n
        \<and> textContent n = [] \<longrightarrow> source (fst (extractItem uuid e u)) = None)"
proof -
  have "source (fst (extractItem uuid e u)) = None"
    if "querySelectorChild e ''Properties'' ''ProtectedString'' ''name'' ''Source'' = Some n"
      and "textContent n = []"
    using that by (cases e) (simp add: Let_def orUndefined_def)
  moreover have "noEmptySource tree" if h: "parseRbxmx uuid xmlText u = Inr (tree, u')"
  proof -
    obtain e' where "tree = fst (extractItem uuid e' u)"
      using parseRbxmx_Inr [OF h] by auto
    then show ?thesis
      by (simp add: extract_noEmptySource(1))
  qed
  ultimately show ?thesis by blast
qed

theorem decode_source_never_empty_witness:
  \<open>parseRbxmx counterUuid
      ''<Item class="Script"><Properties><string name="Name">S</string><ProtectedString name="Source"></ProtectedString></Properties></Item>'' 0
     = Inr (Asset ''id0'' ''S'' ''Script'' None [] None :: nat asset, 1)
   \<and> noEmptySource (Asset ''id0'' ''S'' ''Script'' None [] None :: nat asset)
   \<and> querySelectorChild
         (Element ''Item'' [(''class'', ''Script'')]
            [ElementNode (Element ''Properties'' []
               [ElementNode (Element ''ProtectedString'' [(''name'', ''Source'')] [])])])
         ''Properties'' ''ProtectedString'' ''name'' ''Source''
       = Some (Element ''ProtectedString'' [(''name'', ''Source'')] [])
   \<and> textContent (Element ''ProtectedString'' [(''name'', ''Source'')] []) = []
   \<and> source (fst (extractItem counterUuid
         (Element ''Item'' [(''class'', ''Script'')]
            [ElementNode (Element ''Properties'' []
               [ElementNode (Element ''ProtectedString'' [(''name'', ''Source'')] [])])]) 0
         :: nat asset \<times> nat)) = None\<close>
proof -
  have h: \<open>parseRbxmx counterUuid
      ''<Item class="Script"><Properties><string name="Name">S</string><ProtectedString name="Source"></ProtectedString></Properties></Item>'' 0
     = Inr (Asset ''id0'' ''S'' ''Script'' None [] None :: nat asset, 1)\<close>
    by (simp add: parserEval decoderEval counterUuid_def decimal_digit digit_def)
  have q: \<open>querySelectorChild
         (Element ''Item'' [(''class'', ''Script'')]
            [ElementNode (Element ''Properties'' []
               [ElementNode (Element ''ProtectedString'' [(''name'', ''Source'')] [])])])
         ''Properties'' ''ProtectedString'' ''name'' ''Source''
       = Some (Element ''ProtectedString'' [(''name'', ''Source'')] [])\<close>
    by (simp add: decoderEval)
  show ?thesis
    using h q
      decode_source_never_empty [of counterUuid _ 0
        "Asset ''id0'' ''S'' ''Script'' None [] None :: nat asset" 1
        "Element ''Item'' [(''class'', ''Script'')]
            [ElementNode (Element ''Properties'' []
               [ElementNode (Element ''ProtectedString'' [(''name'', ''Source'')] [])])]"
        "Element ''ProtectedString'' [(''name'', ''Source'')] []"]
    by simp
qed

subsection \<open>Parsing the encoder's text\<close>

lemma run_snoc: "run s (cs @ [c]) = feed (run s cs) c"
  by (simp add: run_def)

lemma run_plain:
  "list_all plainChar s \<Longrightarrow>
   run (Parsing (Content tx) (fr # st) root) s = Parsing (Content (tx @ s)) (fr # st) root"
  by (induction s arbitrary: tx) (simp_all add: run_Nil run_Cons feed_def plainChar_def)

lemma entityName_cases:
  obtains "c = CHR ''<''" | "c = CHR ''>''" | "c = CHR ''&''" | "c = CHR 0x22" | "c = CHR 0x27"
    | "c \<noteq> CHR ''<''" "c \<noteq> CHR ''>''" "c \<noteq> CHR ''&''" "c \<noteq> CHR 0x22" "c \<noteq> CHR 0x27"
  by blast

lemma run_entityText:
  assumes "legalChar c"
  shows "run (Parsing (Content tx) (fr # st) root) (entityText c)
           = Parsing (Content (tx @ [c])) (fr # st) root"
proof (cases c rule: entityName_cases)
  case 1
  then show ?thesis by (simp add: entityText_def entityName_def parserEval)
next
  case 2
  then show ?thesis by (simp add: entityText_def entityName_def parserEval)
next
  case 3
  then show ?thesis by (simp add: entityText_def entityName_def parserEval)
next
  case 4
  then show ?thesis by (simp add: entityText_def entityName_def parserEval)
next
  case 5
  then show ?thesis by (simp add: entityText_def entityName_def parserEval)
next
  case 6
  with assms show ?thesis by (simp add: entityText_def entityName_def run_Cons run_Nil feed_def)
qed

lemma run_escaped:
  "list_all legalChar s \<Longrightarrow>
   run (Parsing (Content tx) (fr # st) root) (escapeXml (Some s))
     = Parsing (Content (tx @ s)) (fr # st) root"
  unfolding escapeXml_Some
  by (induction s arbitrary: tx) (simp_all add: run_Nil run_append run_entityText)

lemma run_attr:
  "list_all attrChar s \<Longrightarrow>
   run (Parsing (AttrValue nm as an (CHR 0x22) v) st root) s
     = Parsing (AttrValue nm as an (CHR 0x22) (v @ attrNorm s)) st root"
  by (induction s arbitrary: v) (simp_all add: run_Nil run_Cons feed_def attrChar_def attrNorm_def)

lemma includesStr_append: "includesStr b p \<Longrightarrow> includesStr (a @ b) p"
  by (induction a) simp_all

lemma includesStr_Cons: "includesStr b p \<Longrightarrow> includesStr (c # b) p"
  by simp

lemma run_cdata:
  "list_all legalChar s \<Longrightarrow> k \<le> 2 \<Longrightarrow> \<not> includesStr (replicate k (CHR '']'') @ s) '']]>'' \<Longrightarrow>
   run (Parsing (CData tx k) st root) (s @ '']]>'')
     = Parsing (Content []) (addCData (tx @ replicate k (CHR '']'') @ s) st) root"
proof (induction s arbitrary: tx k)
  case Nil
  then have "k = 0 \<or> k = 1 \<or> k = 2" by auto
  then show ?case by (auto simp: parserEval numeral_2_eq_2)
next
  case (Cons c s)
  have legal: "legalChar c" "list_all legalChar s" using Cons.prems(1) by simp_all
  consider (bracket) "c = CHR '']''" "k < 2" | (bracket2) "c = CHR '']''" "k = 2"
    | (other) "c \<noteq> CHR '']''"
    using Cons.prems(2) by linarith
  then show ?case
  proof cases
    case bracket
    have "\<not> includesStr (replicate (Suc k) (CHR '']'') @ s) '']]>''"
      using Cons.prems(3) bracket(1) by (simp add: replicate_app_Cons_same)
    then have "run (Parsing (CData tx (Suc k)) st root) (s @ '']]>'')
        = Parsing (Content []) (addCData (tx @ replicate (Suc k) (CHR '']'') @ s) st) root"
      using Cons.IH [of "Suc k" tx] legal bracket(2) by simp
    then show ?thesis
      using bracket legal by (simp add: run_Cons feed_def replicate_app_Cons_same)
  next
    case bracket2
    have "\<not> includesStr (replicate 2 (CHR '']'') @ s) '']]>''"
      using Cons.prems(3) bracket2 by (auto simp: numeral_2_eq_2)
    then have "run (Parsing (CData (tx @ '']'') 2) st root) (s @ '']]>'')
        = Parsing (Content []) (addCData ((tx @ '']'') @ replicate 2 (CHR '']'') @ s) st) root"
      using Cons.IH [of 2 "tx @ '']''"] legal by simp
    then show ?thesis
      using bracket2 legal by (simp add: run_Cons feed_def numeral_2_eq_2)
  next
    case other
    have no: "\<not> includesStr s '']]>''"
      using Cons.prems(3) includesStr_append [of s "'']]>''" "replicate k (CHR '']'') @ [c]"] by auto
    have notend: "\<not> (c = CHR ''>'' \<and> 2 \<le> k)"
    proof
      assume "c = CHR ''>'' \<and> 2 \<le> k"
      then have "c = CHR ''>''" "k = 2" using Cons.prems(2) by auto
      then show False using Cons.prems(3) by (simp add: numeral_2_eq_2 startsWith_def)
    qed
    have "run (Parsing (CData (tx @ replicate k (CHR '']'') @ [c]) 0) st root) (s @ '']]>'')
        = Parsing (Content []) (addCData ((tx @ replicate k (CHR '']'') @ [c]) @ replicate 0 (CHR '']'') @ s) st) root"
      using Cons.IH [of 0 "tx @ replicate k (CHR '']'') @ [c]"] legal no by simp
    then show ?thesis
      using other notend legal by (cases "c = CHR ''>''") (simp_all add: run_Cons feed_def)
  qed
qed

lemma addText_frame: "addText tx ((t, a, ks) # st) = (t, a, ks @ textNodes tx) # st"
  by (simp add: textNodes_def)

lemma textNodes_Nil: "textNodes [] = []"
  by (simp add: textNodes_def)

lemma run_cdata_rest:
  assumes "list_all legalChar s" "\<not> includesStr s '']]>''"
  shows "step (step (step (run (Parsing (CData [] 0) ((t, a, ks) # st) root) s) (CHR '']'')) (CHR '']'')) (CHR ''>'')
     = Parsing (Content []) ((t, a, ks @ [TextNode s]) # st) root"
proof -
  have "run (Parsing (CData [] 0) ((t, a, ks) # st) root) (s @ '']]>'')
     = Parsing (Content []) ((t, a, ks @ [TextNode s]) # st) root"
    using run_cdata [of s 0 "[]" "(t, a, ks) # st" root] assms by simp
  then show ?thesis
    by (simp add: run_append run_Cons run_Nil feed_def legalChar_def)
qed

lemmas lineEval = run_append run_Cons run_Nil feed_def charClasses openElement_def emptyElement_def
  addText_frame textNodes_Nil endsWith_def run_plain run_attr run_escaped run_cdata_rest

lemma run_open_item:
  assumes "list_all plainChar ind" "list_all attrChar cls" "list_all attrChar ref"
  shows \<open>run (Parsing (Content tx) ((t, a, ks) # st) root)
            (ind @ ''<Item class="'' @ cls @ ''" referent="'' @ ref @ ''">\<newline>'')
         = Parsing (Content ''\<newline>'')
             ((''Item'', [(''class'', attrNorm cls), (''referent'', attrNorm ref)], [])
                # (t, a, ks @ textNodes (tx @ ind)) # st) root\<close>
  using assms by (simp add: lineEval del: addText.simps)

lemma run_open_properties:
  assumes "list_all plainChar ind"
  shows \<open>run (Parsing (Content tx) ((t, a, ks) # st) root) (ind @ ''  <Properties>\<newline>'')
         = Parsing (Content ''\<newline>'')
             ((''Properties'', [], []) # (t, a, ks @ textNodes (tx @ ind @ ''  '')) # st) root\<close>
  using assms by (simp add: lineEval del: addText.simps)

lemma run_close_properties:
  assumes "list_all plainChar ind"
  shows \<open>run (Parsing (Content tx) ((''Properties'', a', ks') # (t, a, ks) # st) root)
            (ind @ ''  </Properties>\<newline>'')
         = Parsing (Content ''\<newline>'')
             ((t, a, ks @ [ElementNode (Element ''Properties'' a' (ks' @ textNodes (tx @ ind @ ''  '')))]) # st)
             root\<close>
  using assms by (simp add: lineEval del: addText.simps)

lemma run_close_item:
  assumes "list_all plainChar ind"
  shows \<open>run (Parsing (Content tx) ((''Item'', a', ks') # (t, a, ks) # st) root)
            (ind @ ''</Item>\<newline>'')
         = Parsing (Content ''\<newline>'')
             ((t, a, ks @ [ElementNode (Element ''Item'' a' (ks' @ textNodes (tx @ ind)))]) # st)
             root\<close>
  using assms by (simp add: lineEval del: addText.simps)

lemma run_string_line:
  assumes "list_all plainChar ind" "list_all attrChar k" "list_all legalChar v"
  shows \<open>run (Parsing (Content tx) ((t, a, ks) # st) root)
            (ind @ ''    <string name="'' @ k @ ''">'' @ escapeXml (Some v) @ ''</string>\<newline>'')
         = Parsing (Content ''\<newline>'')
             ((t, a, ks @ textNodes (tx @ ind @ ''    '')
                 @ [ElementNode (Element ''string'' [(''name'', attrNorm k)] (textNodes v))]) # st) root\<close>
  using assms by (simp add: lineEval del: addText.simps)

lemma run_float_line:
  assumes "list_all plainChar ind" "list_all attrChar k" "list_all plainChar v"
  shows \<open>run (Parsing (Content tx) ((t, a, ks) # st) root)
            (ind @ ''    <float name="'' @ k @ ''">'' @ v @ ''</float>\<newline>'')
         = Parsing (Content ''\<newline>'')
             ((t, a, ks @ textNodes (tx @ ind @ ''    '')
                 @ [ElementNode (Element ''float'' [(''name'', attrNorm k)] (textNodes v))]) # st) root\<close>
  using assms by (simp add: lineEval del: addText.simps)

lemma run_bool_line:
  assumes "list_all plainChar ind" "list_all attrChar k" "list_all plainChar v"
  shows \<open>run (Parsing (Content tx) ((t, a, ks) # st) root)
            (ind @ ''    <bool name="'' @ k @ ''">'' @ v @ ''</bool>\<newline>'')
         = Parsing (Content ''\<newline>'')
             ((t, a, ks @ textNodes (tx @ ind @ ''    '')
                 @ [ElementNode (Element ''bool'' [(''name'', attrNorm k)] (textNodes v))]) # st) root\<close>
  using assms by (simp add: lineEval del: addText.simps)

lemma run_source_line:
  assumes "list_all plainChar ind" "list_all legalChar code" "\<not> includesStr code '']]>''"
  shows \<open>run (Parsing (Content tx) ((t, a, ks) # st) root)
            (ind @ ''    <ProtectedString name="Source"><![CDATA['' @ code @ '']]></ProtectedString>\<newline>'')
         = Parsing (Content ''\<newline>'')
             ((t, a, ks @ textNodes (tx @ ind @ ''    '')
                 @ [ElementNode (Element ''ProtectedString'' [(''name'', ''Source'')] [TextNode code])]) # st)
             root\<close>
  using assms by (simp add: lineEval attrNorm_def del: addText.simps)

lemma plain_repeat: "list_all plainChar (repeat ''  '' n)"
  by (induction n) (simp_all add: repeat_def plainChar_def legalChar_def)

lemma repeat_nonempty: "repeat ''  '' (Suc n) \<noteq> []"
  by (simp add: repeat_def)

lemma list_all_mono: "list_all P xs \<Longrightarrow> (\<And>x. P x \<Longrightarrow> Q x) \<Longrightarrow> list_all Q xs"
  by (induction xs) auto

lemma numberChar_plain: "numberChar c \<Longrightarrow> plainChar c"
proof -
  have "list_all plainChar ''0123456789+-.eInfinityNaN''"
    by (simp add: plainChar_def legalChar_def)
  then show "numberChar c \<Longrightarrow> plainChar c"
    unfolding numberChar_def list_all_iff by blast
qed

lemma keyChar_attr: "keyChar c \<Longrightarrow> attrChar c"
  by (simp add: keyChar_def)

lemma classChar_attr: "classChar c \<Longrightarrow> attrChar c"
  by (simp add: classChar_def)

lemma textChar_legal: "textChar c \<Longrightarrow> legalChar c"
  by (simp add: textChar_def)

lemma textNodes_nonempty: "s \<noteq> [] \<Longrightarrow> textNodes s = [TextNode s]"
  by (simp add: textNodes_def)

lemma run_property:
  assumes "safeProperty toStr p"
  shows "run (Parsing (Content ''\<newline>'') ((t, a, ks) # st) root)
             (propertyEntry toStr (repeat ''  '' n) p)
           = Parsing (Content ''\<newline>'') ((t, a, ks @ propertyNodes toStr (repeat ''  '' n) p) # st) root"
proof (cases p)
  case (Pair k v)
  show ?thesis
  proof (cases v)
    case (JString s)
    with Pair assms have "list_all attrChar k" "list_all legalChar s"
      by (auto intro: list_all_mono keyChar_attr textChar_legal)
    then show ?thesis
      unfolding Pair JString propertyEntry.simps propertyNodes.simps
      using run_string_line [of "repeat ''  '' n" k s "''\<newline>''" t a ks st root]
      by (simp add: plain_repeat textNodes_nonempty)
  next
    case (JNumber x)
    with Pair assms have "list_all attrChar k" "list_all plainChar (toStr x)"
      by (auto intro: list_all_mono keyChar_attr numberChar_plain)
    then show ?thesis
      unfolding Pair JNumber propertyEntry.simps propertyNodes.simps
      using run_float_line [of "repeat ''  '' n" k "toStr x" "''\<newline>''" t a ks st root]
      by (simp add: plain_repeat textNodes_nonempty)
  next
    case (JBoolean b)
    with Pair assms have k: "list_all attrChar k"
      by (auto intro: list_all_mono keyChar_attr)
    have "list_all plainChar (if b then ''true'' else ''false'')"
      by (simp add: plainChar_def legalChar_def)
    with k show ?thesis
      unfolding Pair JBoolean propertyEntry.simps propertyNodes.simps
      using run_bool_line [of "repeat ''  '' n" k "if b then ''true'' else ''false''" "''\<newline>''" t a ks st root]
      by (simp add: plain_repeat textNodes_nonempty)
  qed (simp_all add: Pair run_Nil)
qed

lemma run_properties:
  assumes "case props of None \<Rightarrow> True | Some ps \<Rightarrow> list_all (safeProperty toStr) ps"
  shows "run (Parsing (Content ''\<newline>'') ((t, a, ks) # st) root)
             (propertiesXml toStr (repeat ''  '' n) props)
           = Parsing (Content ''\<newline>'') ((t, a, ks @ propertiesNodes toStr (repeat ''  '' n) props) # st) root"
proof (cases props)
  case None
  then show ?thesis by (simp add: propertiesXml_def propertiesNodes_def run_Nil)
next
  case (Some ps)
  with assms have "list_all (safeProperty toStr) ps" by simp
  then have "run (Parsing (Content ''\<newline>'') ((t, a, ks) # st) root)
             (concat (map (propertyEntry toStr (repeat ''  '' n)) ps))
           = Parsing (Content ''\<newline>'')
               ((t, a, ks @ concat (map (propertyNodes toStr (repeat ''  '' n)) ps)) # st) root"
  proof (induction ps arbitrary: ks)
    case Nil
    then show ?case by (simp add: run_Nil)
  next
    case (Cons p ps)
    then show ?case by (simp add: run_append run_property)
  qed
  with Some show ?thesis by (simp add: propertiesXml_def propertiesNodes_def)
qed

lemma run_source:
  assumes "case src of None \<Rightarrow> True
           | Some code \<Rightarrow> \<not> emitsSource cls src \<or> (list_all textChar code \<and> \<not> includesStr code '']]>'')"
  shows "run (Parsing (Content ''\<newline>'') ((t, a, ks) # st) root)
             (sourceXml (repeat ''  '' n) cls src)
           = Parsing (Content ''\<newline>'') ((t, a, ks @ sourceNodes (repeat ''  '' n) cls src) # st) root"
proof (cases "emitsSource cls src")
  case False
  then show ?thesis
    by (auto simp: emitsSource_def truthy_def scriptLike_def sourceXml_def sourceNodes_def run_Nil
             split: option.splits)
next
  case True
  then obtain code where src: "src = Some code" and code: "code \<noteq> []"
    and cls: "includesStr cls ''Script'' \<or> cls = ''ModuleScript''"
    by (auto simp: emitsSource_def truthy_def scriptLike_def split: option.splits)
  with assms True have "list_all legalChar code" "\<not> includesStr code '']]>''"
    by (auto intro: list_all_mono textChar_legal)
  then show ?thesis
    using code cls unfolding src sourceXml_def sourceNodes_def
    using run_source_line [of "repeat ''  '' n" code "''\<newline>''" t a ks st root]
    by (simp add: plain_repeat textNodes_nonempty)
qed

lemma generateItem_lines:
  \<open>fst (generateItem toStr rnd (Asset i nm cls src kids props) depth g) =
     itemOpenLine (repeat ''  '' (depth + 1)) cls (''RBX'' @ decimal (fst (rnd g)))
     @ propertiesOpenLine (repeat ''  '' (depth + 1))
     @ nameLine (repeat ''  '' (depth + 1)) nm
     @ sourceXml (repeat ''  '' (depth + 1)) cls src
     @ propertiesXml toStr (repeat ''  '' (depth + 1)) props
     @ propertiesCloseLine (repeat ''  '' (depth + 1))
     @ fst (generateChildren toStr rnd kids (depth + 1) (snd (rnd g)))
     @ itemCloseLine (repeat ''  '' (depth + 1))\<close>
  unfolding generateItem_text itemOpenLine_def itemCloseLine_def propertiesOpenLine_def
    propertiesCloseLine_def nameLine_def
  by (simp only: append_assoc)

lemma decimal_digits: "list_all (\<lambda>c. c \<in> set ''0123456789'') (decimal n)"
proof (induction n rule: decimal.induct)
  case (1 n)
  have d: "digit k \<in> set ''0123456789''" if "k < 10" for k
    unfolding digit_def using that nth_mem [of k "''0123456789''"] by simp
  show ?case
  proof (cases "n < 10")
    case True
    then show ?thesis using d [of n] by (simp add: decimal.simps [of n])
  next
    case False
    then show ?thesis using 1 d [of "n mod 10"] by (simp add: decimal.simps [of n])
  qed
qed

lemma referent_chars:
  "list_all attrChar (''RBX'' @ decimal n)" "attrNorm (''RBX'' @ decimal n) = ''RBX'' @ decimal n"
proof -
  have "list_all (\<lambda>c. attrChar c \<and> \<not> isSpace c) ''0123456789''"
    by (simp add: attrChar_def legalChar_def isSpace_def)
  then have "list_all (\<lambda>c. attrChar c \<and> \<not> isSpace c) (decimal n)"
    using decimal_digits [of n] unfolding list_all_iff by blast
  then have *: "list_all attrChar (decimal n)" "map (\<lambda>c. if isSpace c then CHR '' '' else c) (decimal n) = decimal n"
    by (simp_all add: list_all_iff map_idI)
  show "list_all attrChar (''RBX'' @ decimal n)"
    using * by (simp add: attrChar_def legalChar_def)
  show "attrNorm (''RBX'' @ decimal n) = ''RBX'' @ decimal n"
    using * by (simp add: attrNorm_def isSpace_def)
qed

lemma attrNorm_class: "list_all classChar cls \<Longrightarrow> attrNorm cls = cls"
  unfolding attrNorm_def
  by (rule map_idI) (auto simp: list_all_iff classChar_def isSpace_def)

lemma run_itemOpenLine:
  assumes "list_all classChar cls"
  shows "run (Parsing (Content ''\<newline>'') ((t, a, ks) # st) root)
             (itemOpenLine (repeat ''  '' (n + 1)) cls (''RBX'' @ decimal r))
         = Parsing (Content ''\<newline>'')
             ((''Item'', [(''class'', attrNorm cls), (''referent'', ''RBX'' @ decimal r)], [])
                # (t, a, ks @ [TextNode (''\<newline>'' @ repeat ''  '' (n + 1))]) # st) root"
proof -
  have attr: "list_all attrChar cls"
    using assms by (auto intro: list_all_mono classChar_attr)
  show ?thesis
    unfolding itemOpenLine_def run_open_item [OF plain_repeat attr referent_chars(1)] referent_chars(2)
    by (simp add: textNodes_nonempty)
qed

lemma run_itemCloseLine:
  "run (Parsing (Content ''\<newline>'') ((''Item'', a', ks') # (t, a, ks) # st) root)
       (itemCloseLine (repeat ''  '' (n + 1)))
     = Parsing (Content ''\<newline>'')
         ((t, a, ks @ [ElementNode (Element ''Item'' a' (ks' @ [TextNode (''\<newline>'' @ repeat ''  '' (n + 1))]))]) # st)
         root"
  unfolding itemCloseLine_def
  using run_close_item [OF plain_repeat [of "n + 1"], of "''\<newline>''" a' ks' t a ks st root]
  by (simp add: textNodes_nonempty)

lemma run_propertiesOpenLine:
  "run (Parsing (Content ''\<newline>'') ((t, a, ks) # st) root) (propertiesOpenLine (repeat ''  '' n))
     = Parsing (Content ''\<newline>'')
         ((''Properties'', [], []) # (t, a, ks @ [TextNode (''\<newline>'' @ repeat ''  '' n @ ''  '')]) # st) root"
  unfolding propertiesOpenLine_def
  using run_open_properties [of "repeat ''  '' n" "''\<newline>''" t a ks st root]
  by (simp add: plain_repeat textNodes_nonempty)

lemma run_propertiesCloseLine:
  "run (Parsing (Content ''\<newline>'') ((''Properties'', a', ks') # (t, a, ks) # st) root)
       (propertiesCloseLine (repeat ''  '' n))
     = Parsing (Content ''\<newline>'')
         ((t, a, ks @ [ElementNode (Element ''Properties'' a'
              (ks' @ [TextNode (''\<newline>'' @ repeat ''  '' n @ ''  '')]))]) # st) root"
  unfolding propertiesCloseLine_def
  using run_close_properties [of "repeat ''  '' n" "''\<newline>''" a' ks' t a ks st root]
  by (simp add: plain_repeat textNodes_nonempty)

lemma run_nameLine:
  assumes "list_all textChar nm"
  shows "run (Parsing (Content ''\<newline>'') ((t, a, ks) # st) root) (nameLine (repeat ''  '' n) nm)
     = Parsing (Content ''\<newline>'')
         ((t, a, ks @ [TextNode (''\<newline>'' @ repeat ''  '' n @ ''    ''),
                       ElementNode (Element ''string'' [(''name'', ''Name'')] (textNodes nm))]) # st) root"
proof -
  have "list_all legalChar nm"
    using assms by (auto intro: list_all_mono textChar_legal)
  moreover have "list_all attrChar ''Name''" "attrNorm ''Name'' = ''Name''"
    by (simp_all add: attrChar_def legalChar_def attrNorm_def isSpace_def)
  ultimately show ?thesis
    unfolding nameLine_def
    using run_string_line [of "repeat ''  '' n" "''Name''" nm "''\<newline>''" t a ks st root]
    by (simp add: plain_repeat textNodes_nonempty)
qed

lemma run_children:
  assumes "\<And>k depth g pt pa pks st root. k \<in> set ts \<Longrightarrow> safeTree toStr k \<Longrightarrow>
             run (Parsing (Content ''\<newline>'') ((pt, pa, pks) # st) root)
                 (fst (generateItem toStr rnd k depth g))
               = Parsing (Content ''\<newline>'')
                   ((pt, pa, pks @ [TextNode (''\<newline>'' @ repeat ''  '' (depth + 1)),
                                    ElementNode (itemElement toStr rnd k depth g)]) # st) root"
    and "list_all (safeTree toStr) ts"
  shows "run (Parsing (Content ''\<newline>'') ((pt, pa, pks) # st) root)
             (fst (generateChildren toStr rnd ts depth g))
           = Parsing (Content ''\<newline>'') ((pt, pa, pks @ childItemNodes toStr rnd ts depth g) # st) root"
  using assms
proof (induction ts arbitrary: g pks)
  case Nil
  then show ?case by (simp add: run_Nil)
next
  case (Cons k ts)
  have item: "run (Parsing (Content ''\<newline>'') ((pt, pa, pks) # st) root)
                 (fst (generateItem toStr rnd k depth g))
               = Parsing (Content ''\<newline>'')
                   ((pt, pa, pks @ [TextNode (''\<newline>'' @ repeat ''  '' (depth + 1)),
                                    ElementNode (itemElement toStr rnd k depth g)]) # st) root"
    using Cons.prems(1) [of k] Cons.prems(2) by simp
  have rest: "run (Parsing (Content ''\<newline>'') ((pt, pa, pks') # st) root)
             (fst (generateChildren toStr rnd ts depth g'))
           = Parsing (Content ''\<newline>'') ((pt, pa, pks' @ childItemNodes toStr rnd ts depth g') # st) root"
    for pks' g'
    by (rule Cons.IH) (use Cons.prems in auto)
  show ?case
    unfolding generateChildren_Cons fst_conv run_append item rest childItemNodes.simps
    by simp
qed

lemma run_item:
  "safeTree toStr t \<Longrightarrow>
   run (Parsing (Content ''\<newline>'') ((pt, pa, pks) # st) root) (fst (generateItem toStr rnd t depth g))
     = Parsing (Content ''\<newline>'')
         ((pt, pa, pks @ [TextNode (''\<newline>'' @ repeat ''  '' (depth + 1)),
                          ElementNode (itemElement toStr rnd t depth g)]) # st) root"
proof (induction t arbitrary: pt pa pks st root depth g)
  case (Asset i nm cls src kids props)
  have safe: "list_all textChar nm" "list_all classChar cls"
    "case src of None \<Rightarrow> True
     | Some code \<Rightarrow> \<not> emitsSource cls src \<or> (list_all textChar code \<and> \<not> includesStr code '']]>'')"
    "case props of None \<Rightarrow> True | Some ps \<Rightarrow> list_all (safeProperty toStr) ps"
    "list_all (safeTree toStr) kids"
    using Asset.prems by simp_all
  have kids: "run (Parsing (Content ''\<newline>'') ((pt', pa', pks') # st') root')
             (fst (generateChildren toStr rnd kids depth' g'))
           = Parsing (Content ''\<newline>'') ((pt', pa', pks' @ childItemNodes toStr rnd kids depth' g') # st') root'"
    for pt' pa' pks' st' root' depth' g'
    by (rule run_children [OF _ safe(5)]) (rule Asset.IH)
  show ?case
    unfolding generateItem_lines run_append run_itemOpenLine [OF safe(2)] run_propertiesOpenLine
      run_nameLine [OF safe(1)] run_source [OF safe(3)] run_properties [OF safe(4)]
      run_propertiesCloseLine kids run_itemCloseLine
    by (simp add: Let_def)
qed

lemma run_preamble:
  "run (Parsing (Content []) [] None) preamble
     = Parsing (Content ''\<newline>'')
         [(''roblox'',
           [(''xmlns:xmime'', ''http://www.w3.org/2005/05/xmlmime''),
            (''xmlns:xsi'', ''http://www.w3.org/2001/XMLSchema-instance''),
            (''xsi:noNamespaceSchemaLocation'', ''http://www.roblox.com/roblox.xsd''),
            (''version'', ''4'')],
           [TextNode ''\<newline>  '',
            ElementNode (Element ''External'' [] [TextNode ''null'']),
            TextNode ''\<newline>  '',
            ElementNode (Element ''External'' [] [TextNode ''nil''])])] None"
  by (simp add: preamble_def parserEval)

lemma run_document:
  assumes "safeTree toStr t"
  shows "finish (run (Parsing (Content []) [] None) (fst (buildRbxmx toStr rnd t g)))
           = Some (documentElement toStr rnd t g)"
  unfolding buildRbxmx_def Let_def fst_conv run_append run_preamble run_item [OF assms]
  by (simp add: parserEval documentElement_def)

lemma normalizeEol_id: "CHR 0x0D \<notin> set s \<Longrightarrow> normalizeEol s = s"
  by (induction s rule: normalizeEol.induct) auto

lemma noCR_simps:
  "noCR []" "noCR (c # s) \<longleftrightarrow> c \<noteq> CHR 0x0D \<and> noCR s" "noCR (a @ b) \<longleftrightarrow> noCR a \<and> noCR b"
  by (auto simp: noCR_def)

lemma noCR_all: "list_all P s \<Longrightarrow> (\<And>c. P c \<Longrightarrow> c \<noteq> CHR 0x0D) \<Longrightarrow> noCR s"
  by (auto simp: noCR_def list_all_iff)

lemma noCR_repeat: "noCR (repeat ''  '' n)"
  by (induction n) (simp_all add: repeat_def noCR_simps)

lemma noCR_decimal: "noCR (decimal n)"
  using decimal_digits [of n] by (rule noCR_all) auto

lemma noCR_escape: "list_all textChar s \<Longrightarrow> noCR (escapeXml (Some s))"
  unfolding escapeXml_Some
  by (induction s) (auto simp: noCR_simps entityText_def entityName_def textChar_def)

lemma noCR_text: "list_all textChar s \<Longrightarrow> noCR s"
  by (rule noCR_all [where P = textChar]) (auto simp: textChar_def)

lemma noCR_key: "list_all keyChar s \<Longrightarrow> noCR s"
  by (rule noCR_all [where P = keyChar]) (auto simp: keyChar_def)

lemma noCR_class: "list_all classChar s \<Longrightarrow> noCR s"
  by (rule noCR_all [where P = classChar]) (auto simp: classChar_def)

lemma noCR_number: "list_all numberChar s \<Longrightarrow> noCR s"
  by (rule noCR_all [where P = numberChar]) (auto simp: numberChar_def)

lemma noCR_property: "safeProperty toStr p \<Longrightarrow> noCR (propertyEntry toStr (repeat ''  '' n) p)"
proof (cases p)
  case (Pair k v)
  assume "safeProperty toStr p"
  then show ?thesis
    unfolding Pair
    by (cases v) (simp_all add: noCR_simps noCR_repeat noCR_key noCR_escape noCR_number)
qed

lemma noCR_properties:
  "(case props of None \<Rightarrow> True | Some ps \<Rightarrow> list_all (safeProperty toStr) ps) \<Longrightarrow>
   noCR (propertiesXml toStr (repeat ''  '' n) props)"
proof (cases props)
  case None
  then show ?thesis by (simp add: propertiesXml_def noCR_simps)
next
  case (Some ps)
  assume "case props of None \<Rightarrow> True | Some ps \<Rightarrow> list_all (safeProperty toStr) ps"
  with Some have "list_all (safeProperty toStr) ps" by simp
  then have "noCR (concat (map (propertyEntry toStr (repeat ''  '' n)) ps))"
    by (induction ps) (simp_all add: noCR_simps noCR_property)
  with Some show ?thesis by (simp add: propertiesXml_def)
qed

lemma noCR_source:
  "(case src of None \<Rightarrow> True
    | Some code \<Rightarrow> \<not> emitsSource cls src \<or> (list_all textChar code \<and> \<not> includesStr code '']]>'')) \<Longrightarrow>
   noCR (sourceXml (repeat ''  '' n) cls src)"
  by (auto simp: sourceXml_def emitsSource_def truthy_def scriptLike_def noCR_simps noCR_repeat noCR_text
           split: option.splits)

lemma noCR_item:
  "safeTree toStr t \<Longrightarrow> noCR (fst (generateItem toStr rnd t depth g))"
proof (induction t arbitrary: depth g)
  case (Asset i nm cls src kids props)
  have safe: "list_all textChar nm" "list_all classChar cls"
    "case src of None \<Rightarrow> True
     | Some code \<Rightarrow> \<not> emitsSource cls src \<or> (list_all textChar code \<and> \<not> includesStr code '']]>'')"
    "case props of None \<Rightarrow> True | Some ps \<Rightarrow> list_all (safeProperty toStr) ps"
    "list_all (safeTree toStr) kids"
    using Asset.prems by simp_all
  have kids: "noCR (fst (generateChildren toStr rnd kids depth' g'))" for depth' g'
    using Asset.IH safe(5)
  proof (induction kids arbitrary: g')
    case Nil
    then show ?case by (simp add: noCR_simps)
  next
    case (Cons k kids)
    then show ?case
      by (simp add: Let_def noCR_simps del: generateItem.simps)
  qed
  show ?case
    unfolding generateItem_text
    by (simp add: noCR_simps noCR_repeat noCR_class [OF safe(2)] noCR_decimal
          noCR_escape [OF safe(1)] noCR_source [OF safe(3)] noCR_properties [OF safe(4)] kids)
qed

lemma noCR_document:
  assumes "safeTree toStr t"
  shows "noCR (fst (buildRbxmx toStr rnd t g))"
  unfolding buildRbxmx_def Let_def fst_conv preamble_def
  by (simp add: noCR_simps noCR_item [OF assms])

lemma xmlParse_document:
  assumes "safeTree toStr t"
  shows "xmlParse (fst (buildRbxmx toStr rnd t g)) = Some (documentElement toStr rnd t g)"
  unfolding xmlParse_def
  using noCR_document [OF assms, of rnd g] run_document [OF assms, of rnd g]
  by (simp add: noCR_def normalizeEol_id)

lemma descendantsOfNodes_append:
  "descendantsOfNodes p (xs @ ys) = descendantsOfNodes p xs @ descendantsOfNodes p ys"
proof (induction xs)
  case Nil
  then show ?case by simp
next
  case (Cons x xs)
  then show ?case by (cases x) simp_all
qed

lemma descendants_textNodes: "descendantsOfNodes p (textNodes s) = []"
  by (simp add: textNodes_def)

lemma textOfNodes_textNodes: "textOfNodes (textNodes s) = s"
  by (simp add: textNodes_def)

lemma querySelectorChild_source:
  "querySelectorChild e ''Properties'' ''ProtectedString'' ''name'' ''Source''
     = map_option snd (find isSource (descendants e))"
  unfolding querySelectorChild_def isSource_def
  by (rule arg_cong [where f = "map_option snd"], rule arg_cong [where f = "\<lambda>P. find P (descendants e)"]) auto

lemma find_append: "find P (xs @ ys) = (case find P xs of None \<Rightarrow> find P ys | Some x \<Rightarrow> Some x)"
  by (induction xs) auto

lemma find_none: "(\<And>x. x \<in> set xs \<Longrightarrow> \<not> P x) \<Longrightarrow> find P xs = None"
  by (simp add: find_None_iff)

lemma property_no_source: "x \<in> set (descendantsOfNodes p (propertyNodes toStr ind kv)) \<Longrightarrow> \<not> isSource x"
proof (cases kv)
  case (Pair k v)
  assume "x \<in> set (descendantsOfNodes p (propertyNodes toStr ind kv))"
  then show ?thesis
    unfolding Pair by (cases v) (auto simp: isSource_def descendants_textNodes)
qed

lemma properties_no_source:
  assumes "x \<in> set (descendantsOfNodes p (propertiesNodes toStr ind props))"
  shows "\<not> isSource x"
proof (cases props)
  case None
  with assms show ?thesis by (simp add: propertiesNodes_def)
next
  case (Some ps)
  have "x \<in> set (descendantsOfNodes p (concat (map (propertyNodes toStr ind) ps))) \<Longrightarrow> \<not> isSource x"
    by (induction ps) (auto simp: descendantsOfNodes_append dest: property_no_source)
  with Some assms show ?thesis
    by (simp add: propertiesNodes_def)
qed

lemma item_no_source:
  "\<not> anySource t \<Longrightarrow> x \<in> set (descendants (itemElement toStr rnd t depth g)) \<Longrightarrow> \<not> isSource x"
proof (induction t arbitrary: depth g x)
  case (Asset i nm cls src kids props)
  have quiet: "\<not> emitsSource cls src" "\<not> list_ex anySource kids"
    using Asset.prems(1) by simp_all
  have src: "sourceNodes ind cls src = []" for ind
    using quiet(1) by (auto simp: sourceNodes_def emitsSource_def truthy_def scriptLike_def split: option.splits)
  have kids: "y \<in> set (descendantsOfNodes p (childItemNodes toStr rnd kids depth' g')) \<Longrightarrow> \<not> isSource y"
    for y p depth' g'
    using Asset.IH quiet(2)
  proof (induction kids arbitrary: g')
    case Nil
    then show ?case by simp
  next
    case (Cons k kids)
    from Cons.prems(1) have "y \<in> set (descendants (itemElement toStr rnd k depth' g'))
        \<or> y = (p, itemElement toStr rnd k depth' g')
        \<or> y \<in> set (descendantsOfNodes p (childItemNodes toStr rnd kids depth'
               (snd (generateItem toStr rnd k depth' g'))))"
      by (auto simp del: itemElement.simps generateItem.simps)
    then show ?case
    proof (elim disjE)
      assume "y \<in> set (descendants (itemElement toStr rnd k depth' g'))"
      then show ?thesis using Cons.prems(2) [of k] Cons.prems(3) by simp
    next
      assume "y = (p, itemElement toStr rnd k depth' g')"
      then show ?thesis by (cases k) (simp add: isSource_def Let_def)
    next
      assume "y \<in> set (descendantsOfNodes p (childItemNodes toStr rnd kids depth'
               (snd (generateItem toStr rnd k depth' g'))))"
      moreover have "\<not> isSource z"
        if "k' \<in> set kids" "\<not> anySource k'" "z \<in> set (descendants (itemElement toStr rnd k' d' g''))"
        for k' z d' g''
        using Cons.prems(2) [of k' z d' g''] that by simp
      moreover have "\<not> list_ex anySource kids"
        using Cons.prems(3) by simp
      ultimately show ?thesis by (rule Cons.IH)
    qed
  qed
  from Asset.prems(2) show ?case
    by (auto simp: Let_def src descendantsOfNodes_append descendants_textNodes isSource_def
             dest: kids properties_no_source)
qed

lemma extractItem_name:
  "name (fst (extractItem uuid e u))
     = orElse (map_option textContent (querySelectorChild e ''Properties'' ''string'' ''name'' ''Name'')) ''Unnamed''"
  by (cases e) (simp add: Let_def)

lemma extractItem_className:
  "className (fst (extractItem uuid e u)) = orElse (getAttribute e ''class'') ''Folder''"
  by (cases e) (simp add: Let_def)

lemma extractItem_source:
  "source (fst (extractItem uuid e u))
     = orUndefined (map_option textContent (map_option snd (find isSource (descendants e))))"
  by (cases e) (simp add: Let_def querySelectorChild_source del: descendants.simps)

lemma extractItem_children:
  "children (fst (extractItem uuid (Element t a ns) u :: 'm asset \<times> 'u))
     = fst (extractChildren uuid ns u :: 'm asset list \<times> 'u)"
  by (simp add: Let_def)

lemma tagName_item: "tagName (itemElement toStr rnd t depth g) = ''Item''"
  by (cases t) (simp add: Let_def)

lemma item_className:
  "list_all classChar cls \<Longrightarrow>
   getAttribute (itemElement toStr rnd (Asset i nm cls src kids props) depth g) ''class'' = Some cls"
  by (simp add: Let_def getAttribute_def attrNorm_class)

lemma item_nameNode:
  "querySelectorChild (itemElement toStr rnd (Asset i nm cls src kids props) depth g)
       ''Properties'' ''string'' ''name'' ''Name''
     = Some (Element ''string'' [(''name'', ''Name'')] (textNodes nm))"
  by (simp add: Let_def querySelectorChild_def getAttribute_def)

lemma item_sourceNode:
  assumes "emitsSource cls (Some code)"
  shows "find isSource (descendants (itemElement toStr rnd (Asset i nm cls (Some code) kids props) depth g))
     = Some (''Properties'', Element ''ProtectedString'' [(''name'', ''Source'')] [TextNode code])"
proof -
  have "sourceNodes ind cls (Some code)
      = [TextNode (''\<newline>'' @ ind @ ''    ''),
         ElementNode (Element ''ProtectedString'' [(''name'', ''Source'')] [TextNode code])]" for ind
    using assms by (auto simp: sourceNodes_def emitsSource_def truthy_def scriptLike_def)
  then show ?thesis
    by (simp add: Let_def isSource_def getAttribute_def descendants_textNodes)
qed

lemma extract_children:
  assumes "\<And>k depth g u. k \<in> set kids \<Longrightarrow>
             agrees k (fst (extractItem uuid (itemElement toStr rnd k depth g) u :: 'm asset \<times> 'u))"
  shows "agreesList kids
           (fst (extractChildren uuid (childItemNodes toStr rnd kids depth g @ [TextNode s]) u
                   :: 'm asset list \<times> 'u))"
  using assms
proof (induction kids arbitrary: g u)
  case Nil
  then show ?case by simp
next
  case (Cons k kids)
  have "agrees k (fst (extractItem uuid (itemElement toStr rnd k depth g) u :: 'm asset \<times> 'u))"
    using Cons.prems [of k] by simp
  moreover have "agreesList kids
           (fst (extractChildren uuid (childItemNodes toStr rnd kids depth g' @ [TextNode s]) u'
                   :: 'm asset list \<times> 'u))" for g' u'
    by (rule Cons.IH) (use Cons.prems in auto)
  ultimately show ?case
    by (simp add: tagName_item Let_def del: itemElement.simps generateItem.simps agrees.simps)
qed

lemma extract_item:
  "safeTree toStr t \<Longrightarrow>
   agrees t (fst (extractItem uuid (itemElement toStr rnd t depth g) u :: 'm asset \<times> 'u))"
proof (induction t arbitrary: depth g u)
  case (Asset i nm cls src kids props)
  let ?t = "Asset i nm cls src kids props"
  let ?d = "fst (extractItem uuid (itemElement toStr rnd ?t depth g) u :: 'm asset \<times> 'u)"
  have cls: "list_all classChar cls" and safeKids: "list_all (safeTree toStr) kids"
    using Asset.prems by simp_all
  have "name ?d = (if nm = [] then ''Unnamed'' else nm)"
    unfolding extractItem_name item_nameNode
    by (simp add: orElse_def textOfNodes_textNodes)
  moreover have "className ?d = (if cls = [] then ''Folder'' else cls)"
    unfolding extractItem_className item_className [OF cls]
    by (simp add: orElse_def)
  moreover have "source ?d = src" if "emitsSource cls src"
  proof -
    from that obtain code where src: "src = Some code" and code: "code \<noteq> []"
      by (auto simp: emitsSource_def truthy_def split: option.splits)
    show ?thesis
      using that code unfolding src extractItem_source
      by (simp add: item_sourceNode orUndefined_def del: itemElement.simps)
  qed
  moreover have "source ?d = None" if "\<not> anySource ?t"
  proof -
    have "find isSource (descendants (itemElement toStr rnd ?t depth g)) = None"
      by (rule find_none) (rule item_no_source [OF that])
    then show ?thesis
      unfolding extractItem_source by (simp add: orUndefined_def)
  qed
  moreover have "agreesList kids (children ?d)"
  proof -
    have "agreesList kids
           (fst (extractChildren uuid (childItemNodes toStr rnd kids (depth + 1) (snd (rnd g))
                   @ [TextNode (''\<newline>'' @ repeat ''  '' (depth + 1))]) u :: 'm asset list \<times> 'u))"
      by (rule extract_children) (use Asset.IH safeKids in \<open>auto simp: list_all_iff\<close>)
    then show ?thesis
      by (simp add: Let_def)
  qed
  ultimately show ?case
    by (simp del: itemElement.simps anySource.simps)
qed

lemma querySelector_document:
  "querySelectorTag (documentElement toStr rnd t g) ''Item'' = Some (itemElement toStr rnd t 0 g)"
  by (simp add: querySelectorTag_def documentElement_def tagName_item del: itemElement.simps)

lemma decode_encode:
  assumes "safeTree toStr t"
  shows "parseRbxmx uuid (fst (buildRbxmx toStr rnd t g)) u
           = Inr (extractItem uuid (itemElement toStr rnd t 0 g) u)"
  by (simp add: parseRbxmx_def parseFromString_def xmlParse_document [OF assms] querySelector_document)

subsection \<open>The round trip\<close>

text \<open>
  C1 (as amended). For every tree whose names, string values and emitted sources consist
  of legal characters without carriage return, whose class names and property names hold
  no markup character, whose number texts are numerals and whose emitted sources hold no
  CDATA terminator (\<open>safeTree\<close>), decoding the encoded document succeeds and yields a tree
  with the same name (the default name for the empty name), the same class name (the
  default class for the empty one), the same source on every node that has a source line,
  no source on a node whose subtree has no source line, and the same children in number
  and order at every depth (\<open>agrees\<close>).
\<close>

theorem round_trip:
  "safeTree toStr t \<Longrightarrow>
   \<exists>d u'. parseRbxmx uuid (fst (buildRbxmx toStr rnd t g)) (u :: 'u) = Inr (d :: 'm asset, u') \<and> agrees t d"
proof -
  assume safe: "safeTree toStr t"
  let ?r = "extractItem uuid (itemElement toStr rnd t 0 g) u :: 'm asset \<times> 'u"
  have "parseRbxmx uuid (fst (buildRbxmx toStr rnd t g)) u = Inr (fst ?r, snd ?r)"
    using decode_encode [OF safe] by simp
  moreover have "agrees t (fst ?r)"
    by (rule extract_item [OF safe])
  ultimately show ?thesis by blast
qed

lemmas domEval = itemElement.simps childItemNodes.simps textNodes_def sourceNodes_def
  propertiesNodes_def attrNorm_def isSpace_def repeat_def

lemmas safeEval = textChar_def keyChar_def classChar_def attrChar_def numberChar_def legalChar_def
  emitsSource_def truthy_def scriptLike_def startsWith_def decimal_digit digit_def

theorem round_trip_witness:
  \<open>safeTree (\<lambda>n::nat. decimal n) sampleTree
   \<and> (\<exists>d u'. parseRbxmx counterUuid (fst (buildRbxmx (\<lambda>n::nat. decimal n) cyclicDraws sampleTree 0)) 0
                 = Inr (d :: nat asset, u')
             \<and> agrees sampleTree d)\<close>
proof -
  have safe: \<open>safeTree (\<lambda>n::nat. decimal n) sampleTree\<close>
    by (simp add: sampleTree_def safeEval)
  show ?thesis
    by (rule conjI) (rule safe, rule round_trip [OF safe])
qed

text \<open>
  The round trip as the claim states it fails for the empty name: the decoder returns the
  default name.
\<close>

theorem round_trip_counterexample:
  \<open>parseRbxmx counterUuid
      (fst (buildRbxmx (\<lambda>n::nat. decimal n) cyclicDraws (Asset [] [] ''Folder'' None [] None) 0)) 0
     = Inr (Asset ''id0'' ''Unnamed'' ''Folder'' None [] None :: nat asset, 1)\<close>
proof -
  have safe: "safeTree (\<lambda>n::nat. decimal n) (Asset [] [] ''Folder'' None [] None)"
    by (simp add: safeEval)
  show ?thesis
    unfolding decode_encode [OF safe]
    by (simp add: domEval decoderEval counterUuid_def cyclicDraws_def decimal_digit digit_def)
qed

subsection \<open>Failure of the decoder\<close>



subsection \<open>Well-formedness of the encoder's text\<close>

lemma encode_well_formed_safe:
  "safeTree toStr t \<Longrightarrow> wellFormed (fst (buildRbxmx toStr rnd t g))"
  by (simp add: wellFormed_def xmlParse_document)

text \<open>
  C5. The class name is written into the class attribute as it is: for a class name with
  a quotation mark the encoder emits the text below, which is not well-formed.
\<close>

theorem encode_not_well_formed:
  \<open>fst (generateItem (\<lambda>n::nat. decimal n) cyclicDraws badClass 0 0)
     = ''  <Item class="A"B" referent="RBX0">\<newline>''
       @ ''    <Properties>\<newline>''
       @ ''      <string name="Name">Part</string>\<newline>''
       @ ''    </Properties>\<newline>''
       @ ''  </Item>\<newline>''
   \<and> \<not> wellFormed (fst (buildRbxmx (\<lambda>n::nat. decimal n) cyclicDraws badClass 0))\<close>
proof -
  have emitted: \<open>fst (generateItem (\<lambda>n::nat. decimal n) cyclicDraws badClass 0 0)
     = ''  <Item class="A"B" referent="RBX0">\<newline>''
       @ ''    <Properties>\<newline>''
       @ ''      <string name="Name">Part</string>\<newline>''
       @ ''    </Properties>\<newline>''
       @ ''  </Item>\<newline>''\<close>
    by (simp add: badClass_def Let_def repeat_def cyclicDraws_def decimal_digit digit_def escapeXml_def
          escapeClass_def)
  have "noCR (fst (buildRbxmx (\<lambda>n::nat. decimal n) cyclicDraws badClass 0))"
    unfolding buildRbxmx_def Let_def fst_conv emitted
    by (simp add: preamble_def noCR_simps)
  then have "xmlParse (fst (buildRbxmx (\<lambda>n::nat. decimal n) cyclicDraws badClass 0))
      = finish (run (Parsing (Content []) [] None) (fst (buildRbxmx (\<lambda>n::nat. decimal n) cyclicDraws badClass 0)))"
    by (simp add: xmlParse_def noCR_def normalizeEol_id)
  also have "\<dots> = None"
    unfolding buildRbxmx_def Let_def fst_conv emitted run_append run_preamble
    by (simp add: parserEval)
  finally have "xmlParse (fst (buildRbxmx (\<lambda>n::nat. decimal n) cyclicDraws badClass 0)) = None" .
  with emitted show ?thesis
    by (simp add: wellFormed_def)
qed

subsection \<open>Names taken from descendants\<close>

text \<open>
  C9. An \<^verbatim>\<open>Item\<close> without a Name property of its own does not get the default name when
  one of its descendants has a Name property: the selector finds that one.
\<close>

theorem decode_name_of_descendant:
  \<open>parseRbxmx counterUuid
      ''<Item class="Folder"><Item class="Part"><Properties><string name="Name">Kid</string></Properties></Item></Item>'' 0
     = Inr (Asset ''id1'' ''Kid'' ''Folder'' None [Asset ''id0'' ''Kid'' ''Part'' None [] None] None :: nat asset, 2)\<close>
  by (simp add: parserEval decoderEval counterUuid_def decimal_digit digit_def)

text \<open>
  The selector for the source searches the descendants too: after one encode/decode cycle
  a folder that holds a script has the source of the script.
\<close>

lemma decode_source_of_descendant:
  \<open>parseRbxmx counterUuid (fst (buildRbxmx (\<lambda>n::nat. decimal n) cyclicDraws folderWithScript 0)) 0
     = Inr (Asset ''id1'' ''Root'' ''Folder'' (Some ''print(1)'')
              [Asset ''id0'' ''Main'' ''Script'' (Some ''print(1)'') [] None] None :: nat asset, 2)\<close>
proof -
  have safe: "safeTree (\<lambda>n::nat. decimal n) folderWithScript"
    by (simp add: folderWithScript_def safeEval)
  show ?thesis
    unfolding decode_encode [OF safe]
    by (simp add: folderWithScript_def domEval decoderEval counterUuid_def cyclicDraws_def
          decimal_digit digit_def startsWith_def)
qed

subsection \<open>The source of script-like nodes\<close>









subsection \<open>Referents\<close>

lemma safe_thousandNodes: "safeTree toStr thousandNodes"
  by (simp add: thousandNodes_def partLeaf_def safeEval list_all_iff)

lemma leaf_state: "snd (generateItem toStr cyclicDraws partLeaf depth g) = Suc g"
  by (simp add: partLeaf_def Let_def cyclicDraws_def)

lemma leaf_referents:
  "map (\<lambda>e. getAttribute e ''referent'')
     (filter (\<lambda>e. tagName e = ''Item'')
        (itemElement toStr cyclicDraws partLeaf depth g
           # map snd (descendants (itemElement toStr cyclicDraws partLeaf depth g))))
     = [Some (''RBX'' @ decimal (g mod 999))]"
  by (simp add: partLeaf_def Let_def cyclicDraws_def getAttribute_def textNodes_def sourceNodes_def
        propertiesNodes_def)

lemma leaves_referents:
  "map (\<lambda>e. getAttribute e ''referent'')
     (filter (\<lambda>e. tagName e = ''Item'')
        (map snd (descendantsOfNodes p (childItemNodes toStr cyclicDraws (replicate m partLeaf) depth g))))
     = map (\<lambda>i. Some (''RBX'' @ decimal ((g + i) mod 999))) [0..<m]"
proof (induction m arbitrary: g)
  case 0
  then show ?case by simp
next
  case (Suc m)
  have "map (\<lambda>i. Some (''RBX'' @ decimal ((g + i) mod 999))) [0..<Suc m]
      = Some (''RBX'' @ decimal (g mod 999)) # map (\<lambda>i. Some (''RBX'' @ decimal ((Suc g + i) mod 999))) [0..<m]"
    by (simp add: map_upt_Suc del: upt_Suc)
  then show ?case
    using Suc [of "Suc g"] leaf_referents [of toStr depth g]
    by (simp add: leaf_state tagName_item del: itemElement.simps generateItem.simps upt_Suc)
qed

lemma thousand_referents:
  "referents (documentElement toStr cyclicDraws thousandNodes 0)
     = Some (''RBX'' @ decimal 0) # map (\<lambda>i. Some (''RBX'' @ decimal ((1 + i) mod 999))) [0..<999]"
  unfolding referents_def elementsOf_def documentElement_def thousandNodes_def
  using leaves_referents [of "''Item''" toStr 999 1 1]
  by (simp add: Let_def cyclicDraws_def getAttribute_def textNodes_def sourceNodes_def
        propertiesNodes_def descendantsOfNodes_append emitsSource_def truthy_def
      del: childItemNodes.simps upt_Suc replicate.simps)

text \<open>
  C2. Referents are drawn from the random generator and nothing makes them differ: for a
  tree of 1000 nodes and a generator whose first and thousandth draw coincide, the
  encoded document has 1000 referents that are not pairwise distinct.
\<close>

theorem referents_not_unique:
  "nodeCount thousandNodes = 1000
   \<and> length (referents (parseFromString (fst (buildRbxmx toStr cyclicDraws thousandNodes 0)))) = 1000
   \<and> \<not> distinct (referents (parseFromString (fst (buildRbxmx toStr cyclicDraws thousandNodes 0))))"
proof -
  have doc: "parseFromString (fst (buildRbxmx toStr cyclicDraws thousandNodes 0))
      = documentElement toStr cyclicDraws thousandNodes 0"
    by (simp add: parseFromString_def xmlParse_document [OF safe_thousandNodes])
  have "Some (''RBX'' @ decimal 0)
      \<in> set (map (\<lambda>i. Some (''RBX'' @ decimal ((1 + i) mod 999))) [0..<999])"
    using imageI [of 998 "{0..<999}" "\<lambda>i. Some (''RBX'' @ decimal ((1 + i) mod 999))"] by simp
  then have "\<not> distinct (referents (documentElement toStr cyclicDraws thousandNodes 0))"
    unfolding thousand_referents by (simp del: upt_Suc)
  moreover have "length (referents (documentElement toStr cyclicDraws thousandNodes 0)) = 1000"
    unfolding thousand_referents by simp
  moreover have "nodeCount thousandNodes = 1000"
    by (simp add: thousandNodes_def partLeaf_def sum_list_replicate)
  ultimately show ?thesis
    unfolding doc by blast
qed

end
